theory Spec2Isabelle
  imports Complex_Main "HOL-Library.Word"
begin

section \<open>JavaScript values used by the request handler\<close>

text \<open>
  The handler \<^verbatim>\<open>web/app/api/process/route.ts\<close> works on JavaScript strings. A
  JavaScript string is a sequence of UTF-16 code units, so it is a list of 16-bit words
  here; \<open>js\<close> writes a literal of the source (all of them ASCII).
\<close>

type_synonym jsstring = "16 word list"

definition js :: "string \<Rightarrow> jsstring" where
  "js s = map (\<lambda>c. of_nat (of_char c)) s"

text \<open>
  \<^verbatim>\<open>String.prototype.trim\<close> removes the code units of ECMAScript's WhiteSpace and
  LineTerminator productions from both ends: TAB, LF, VT, FF, CR, SP, NBSP, the
  Unicode space separators, LS, PS and the byte order mark.
\<close>

definition isWhiteSpace :: "16 word \<Rightarrow> bool" where
  "isWhiteSpace c \<longleftrightarrow>
     c = 0x0009 \<or> c = 0x000A \<or> c = 0x000B \<or> c = 0x000C \<or> c = 0x000D \<or> c = 0x0020 \<or>
     c = 0x00A0 \<or> c = 0x1680 \<or> (0x2000 \<le> c \<and> c \<le> 0x200A) \<or> c = 0x2028 \<or>
     c = 0x2029 \<or> c = 0x202F \<or> c = 0x205F \<or> c = 0x3000 \<or> c = 0xFEFF"

definition trim :: "jsstring \<Rightarrow> jsstring" where
  "trim s = rev (dropWhile isWhiteSpace (rev (dropWhile isWhiteSpace s)))"

text \<open>
  \<^verbatim>\<open>s.split(",")\<close>: the pieces between the commas, in order; the empty string
  gives one empty piece.
\<close>

fun js_split :: "16 word \<Rightarrow> jsstring \<Rightarrow> jsstring list" where
  "js_split sep [] = [[]]"
| "js_split sep (c # cs) =
     (if c = sep then [] # js_split sep cs
      else (case js_split sep cs of
              [] \<Rightarrow> [[c]]
            | p # ps \<Rightarrow> (c # p) # ps))"

definition comma :: "16 word" where
  "comma = 0x002C"

text \<open>\<^verbatim>\<open>raw.split(",").map((entry) => entry.trim()).filter(Boolean)\<close>\<close>

definition split_trim :: "jsstring \<Rightarrow> jsstring list" where
  "split_trim s = filter (\<lambda>entry. entry \<noteq> []) (map trim (js_split comma s))"

text \<open>
  A thrown value is an instance of \<^verbatim>\<open>Error\<close> with its message, or anything else.
\<close>

datatype thrown = ErrorObj jsstring | NonError

text \<open>
  The values \<^verbatim>\<open>JSON.parse\<close> returns. A number is an IEEE double whose arithmetic
  the handler never uses; only its conversion to a string matters, and that is a
  parameter of the runtime below.
\<close>

typedecl jsnumber

datatype json =
    JNull
  | JBool bool
  | JNum jsnumber
  | JStr jsstring
  | JArr "json list"
  | JObj "(jsstring \<times> json) list"

fun join_comma :: "jsstring list \<Rightarrow> jsstring" where
  "join_comma [] = []"
| "join_comma [p] = p"
| "join_comma (p # q # ps) = p @ comma # join_comma (q # ps)"

text \<open>
  \<^verbatim>\<open>String(entry)\<close> on a parsed JSON value (ECMAScript ToString). An array is joined
  with commas, \<^verbatim>\<open>null\<close> elements giving the empty string. An object goes through
  OrdinaryToPrimitive: \<^verbatim>\<open>Object.prototype.toString\<close> answers
  \<^verbatim>\<open>[object Object]\<close>, unless the object has an own property \<^verbatim>\<open>toString\<close>; a
  parsed JSON value is never callable, so that property is skipped,
  \<^verbatim>\<open>valueOf\<close> returns no primitive either, and a TypeError is thrown.
\<close>

fun ToString :: "(jsnumber \<Rightarrow> jsstring) \<Rightarrow> json \<Rightarrow> thrown + jsstring"
  and join_parts :: "(jsnumber \<Rightarrow> jsstring) \<Rightarrow> json list \<Rightarrow> thrown + jsstring list" where
  "ToString num JNull = Inr (js ''null'')"
| "ToString num (JBool b) = Inr (if b then js ''true'' else js ''false'')"
| "ToString num (JNum x) = Inr (num x)"
| "ToString num (JStr s) = Inr s"
| "ToString num (JArr elems) =
     (case join_parts num elems of
        Inl e \<Rightarrow> Inl e
      | Inr ps \<Rightarrow> Inr (join_comma ps))"
| "ToString num (JObj props) =
     (if js ''toString'' \<in> set (map fst props)
      then Inl (ErrorObj (js ''Cannot convert object to primitive value''))
      else Inr (js ''[object Object]''))"
| "join_parts num [] = Inr []"
| "join_parts num (x # xs) =
     (case (case x of JNull \<Rightarrow> Inr [] | _ \<Rightarrow> ToString num x) of
        Inl e \<Rightarrow> Inl e
      | Inr p \<Rightarrow>
          (case join_parts num xs of
             Inl e \<Rightarrow> Inl e
           | Inr ps \<Rightarrow> Inr (p # ps)))"

text \<open>
  \<^verbatim>\<open>parsed.map((entry) => String(entry).trim())\<close>: the entries in order; the first
  conversion that throws ends the map.
\<close>

fun map_String_trim :: "(jsnumber \<Rightarrow> jsstring) \<Rightarrow> json list \<Rightarrow> thrown + jsstring list" where
  "map_String_trim num [] = Inr []"
| "map_String_trim num (entry # rest) =
     (case ToString num entry of
        Inl e \<Rightarrow> Inl e
      | Inr s \<Rightarrow>
          (case map_String_trim num rest of
             Inl e \<Rightarrow> Inl e
           | Inr ss \<Rightarrow> Inr (trim s # ss)))"

section \<open>Form data\<close>

text \<open>
  An uploaded \<^verbatim>\<open>File\<close> has a name and bytes. A form data entry is a string or a
  file; the form data is the list of its (name, entry) pairs in the order of the
  request.
\<close>

record File =
  name :: jsstring
  bytes :: "8 word list"

datatype entry = StringEntry jsstring | FileEntry File

type_synonym formdata = "(jsstring \<times> entry) list"

text \<open>\<^verbatim>\<open>formData.get(key)\<close>: the first entry of that name, or null.\<close>

definition formData_get :: "formdata \<Rightarrow> jsstring \<Rightarrow> entry option" where
  "formData_get fd key = map_of fd key"

text \<open>\<^verbatim>\<open>formData.getAll(key)\<close>: every entry of that name, in order.\<close>

definition formData_getAll :: "formdata \<Rightarrow> jsstring \<Rightarrow> entry list" where
  "formData_getAll fd key = map snd (filter (\<lambda>p. fst p = key) fd)"

text \<open>
  \<^verbatim>\<open>entry.toString()\<close>: a string is itself, a \<^verbatim>\<open>File\<close> prints as
  \<^verbatim>\<open>[object File]\<close>.
\<close>

fun entry_toString :: "entry \<Rightarrow> jsstring" where
  "entry_toString (StringEntry s) = s"
| "entry_toString (FileEntry f) = js ''[object File]''"

text \<open>\<^verbatim>\<open>formData.get(key)?.toString()\<close>: \<open>None\<close> is \<^verbatim>\<open>undefined\<close>.\<close>

definition field_text :: "formdata \<Rightarrow> jsstring \<Rightarrow> jsstring option" where
  "field_text fd key = map_option entry_toString (formData_get fd key)"

section \<open>The services the handler calls\<close>

text \<open>
  The handler talks to code outside \<^verbatim>\<open>route.ts\<close>: the runtime
  (\<^verbatim>\<open>process.env.FAL_KEY\<close>, \<^verbatim>\<open>JSON.parse\<close>, the printing of numbers,
  \<^verbatim>\<open>crypto.randomUUID\<close>) and the functions imported from \<^verbatim>\<open>@/lib\<close>. They are
  parameters of the model. Each call that can have an effect takes the state of the
  outside world \<open>'w\<close> and returns the new one, together with the value it resolves to
  (\<open>Inr\<close>) or the value it throws (\<open>Inl\<close>); \<^verbatim>\<open>crypto.randomUUID\<close> always
  returns a string. Arguments passed as an object literal are listed in the order of
  the literal:
  \<^item> \<open>buildPrompt location mode lens cameraMood emphasis\<close>, giving
    \<open>(positive, negative)\<close>;
  \<^item> \<open>generateWithFal baseImageBase64 prompt negativePrompt aspectRatio strength\<close>;
  \<^item> \<open>generateWithPollinations prompt negativePrompt aspectRatio\<close>;
  \<^item> \<open>validateMarineScene imageUrl location expectations\<close>.
\<close>

text \<open>
  Modelled from the spec: the type of what \<^verbatim>\<open>validateMarineScene\<close> resolves to,
  declared in \<^verbatim>\<open>@/lib/validator\<close>: a status, free-text reasoning and a list of
  issue strings. The status is kept as the string it is at run time.
\<close>

record ValidationResult =
  status :: jsstring
  issues :: "jsstring list"
  reasoning :: jsstring

record 'w services =
  FAL_KEY :: "jsstring option"
  JSON_parse :: "jsstring \<Rightarrow> thrown + json"
  Number_toString :: "jsnumber \<Rightarrow> jsstring"
  randomUUID :: "'w \<Rightarrow> jsstring \<times> 'w"
  buildPrompt :: "jsstring \<Rightarrow> jsstring \<Rightarrow> jsstring \<Rightarrow> jsstring \<Rightarrow> jsstring list
    \<Rightarrow> 'w \<Rightarrow> (thrown + jsstring \<times> jsstring) \<times> 'w"
  fileToBase64 :: "File \<Rightarrow> 'w \<Rightarrow> (thrown + jsstring) \<times> 'w"
  generateWithFal :: "jsstring \<Rightarrow> jsstring \<Rightarrow> jsstring \<Rightarrow> jsstring \<Rightarrow> rat
    \<Rightarrow> 'w \<Rightarrow> (thrown + jsstring) \<times> 'w"
  generateWithPollinations :: "jsstring \<Rightarrow> jsstring \<Rightarrow> jsstring
    \<Rightarrow> 'w \<Rightarrow> (thrown + jsstring) \<times> 'w"
  validateMarineScene :: "jsstring \<Rightarrow> jsstring \<Rightarrow> jsstring list
    \<Rightarrow> 'w \<Rightarrow> (thrown + ValidationResult) \<times> 'w"

text \<open>
  The calls made so far are recorded beside the world, so that a statement can say
  which service was invoked and with which arguments. (\<^verbatim>\<open>console.error\<close> only
  writes a log line and is left out.)
\<close>

datatype call =
    Call_randomUUID
  | Call_buildPrompt jsstring jsstring jsstring jsstring "jsstring list"
  | Call_fileToBase64 File
  | Call_generateWithFal jsstring jsstring jsstring jsstring rat
  | Call_generateWithPollinations jsstring jsstring jsstring
  | Call_validateMarineScene jsstring jsstring "jsstring list"

type_synonym 'w st = "'w \<times> call list"

type_synonym ('a, 'w) io = "'w st \<Rightarrow> (thrown + 'a) \<times> 'w st"

definition io_return :: "'a \<Rightarrow> ('a, 'w) io" where
  "io_return x s = (Inr x, s)"

definition io_throw :: "thrown \<Rightarrow> ('a, 'w) io" where
  "io_throw e s = (Inl e, s)"

definition io_bind :: "('a, 'w) io \<Rightarrow> ('a \<Rightarrow> ('b, 'w) io) \<Rightarrow> ('b, 'w) io" where
  "io_bind m f s = (case m s of (Inl e, s') \<Rightarrow> (Inl e, s') | (Inr x, s') \<Rightarrow> f x s')"

text \<open>\<^verbatim>\<open>try { m } catch (e) { h(e) }\<close>\<close>

definition io_catch :: "('a, 'w) io \<Rightarrow> (thrown \<Rightarrow> ('a, 'w) io) \<Rightarrow> ('a, 'w) io" where
  "io_catch m h s = (case m s of (Inl e, s') \<Rightarrow> h e s' | (Inr x, s') \<Rightarrow> (Inr x, s'))"

text \<open>A call of a service: it runs on the world and is appended to the record.\<close>

definition invoke :: "call \<Rightarrow> ('w \<Rightarrow> (thrown + 'a) \<times> 'w) \<Rightarrow> ('a, 'w) io" where
  "invoke c f s = (case f (fst s) of (r, w') \<Rightarrow> (r, (w', snd s @ [c])))"

text \<open>The six calls of \<^verbatim>\<open>runGeneration\<close>, each with its record.\<close>

definition call_randomUUID :: "'w services \<Rightarrow> (jsstring, 'w) io" where
  "call_randomUUID env =
     invoke Call_randomUUID (\<lambda>w. case randomUUID env w of (u, w') \<Rightarrow> (Inr u, w'))"

definition call_buildPrompt :: "'w services \<Rightarrow> jsstring \<Rightarrow> jsstring \<Rightarrow> jsstring \<Rightarrow> jsstring
    \<Rightarrow> jsstring list \<Rightarrow> (jsstring \<times> jsstring, 'w) io" where
  "call_buildPrompt env loc md lp mo emphasis =
     invoke (Call_buildPrompt loc md lp mo emphasis) (buildPrompt env loc md lp mo emphasis)"

definition call_fileToBase64 :: "'w services \<Rightarrow> File \<Rightarrow> (jsstring, 'w) io" where
  "call_fileToBase64 env file = invoke (Call_fileToBase64 file) (fileToBase64 env file)"

definition call_generateWithFal :: "'w services \<Rightarrow> jsstring \<Rightarrow> jsstring \<Rightarrow> jsstring \<Rightarrow> jsstring
    \<Rightarrow> rat \<Rightarrow> (jsstring, 'w) io" where
  "call_generateWithFal env base64 positive negative ratio st =
     invoke (Call_generateWithFal base64 positive negative ratio st)
       (generateWithFal env base64 positive negative ratio st)"

definition call_generateWithPollinations :: "'w services \<Rightarrow> jsstring \<Rightarrow> jsstring \<Rightarrow> jsstring
    \<Rightarrow> (jsstring, 'w) io" where
  "call_generateWithPollinations env positive negative ratio =
     invoke (Call_generateWithPollinations positive negative ratio)
       (generateWithPollinations env positive negative ratio)"

definition call_validateMarineScene :: "'w services \<Rightarrow> jsstring \<Rightarrow> jsstring \<Rightarrow> jsstring list
    \<Rightarrow> (ValidationResult, 'w) io" where
  "call_validateMarineScene env url loc expected =
     invoke (Call_validateMarineScene url loc expected)
       (validateMarineScene env url loc expected)"

section \<open>parseJsonArray\<close>

text \<open>
  \<^verbatim>\<open>parseJsonArray(raw)\<close>, lines 13 to 33. The guard returns the empty list for
  null, for the empty string and for a \<^verbatim>\<open>File\<close>. Inside the \<^verbatim>\<open>try\<close>, both
  \<^verbatim>\<open>JSON.parse\<close> and \<^verbatim>\<open>String(entry)\<close> can throw; the \<^verbatim>\<open>catch\<close> then splits the
  raw text at its commas.
\<close>

definition parseJsonArray :: "'w services \<Rightarrow> entry option \<Rightarrow> jsstring list" where
  "parseJsonArray env raw =
     (case raw of
        None \<Rightarrow> []
      | Some (FileEntry f) \<Rightarrow> []
      | Some (StringEntry text) \<Rightarrow>
          if text = [] then []
          else (case JSON_parse env text of
                  Inl e \<Rightarrow> split_trim text
                | Inr (JArr parsed) \<Rightarrow>
                    (case map_String_trim (Number_toString env) parsed of
                       Inl e \<Rightarrow> split_trim text
                     | Inr entries \<Rightarrow> filter (\<lambda>entry. entry \<noteq> []) entries)
                | Inr (JStr parsed) \<Rightarrow> split_trim parsed
                | Inr other \<Rightarrow> []))"

section \<open>runGeneration\<close>

text \<open>
  The result of one item, with the fields of the two object literals
  \<^verbatim>\<open>runGeneration\<close> returns (lines 106 to 124 and 127 to 135); its type
  \<^verbatim>\<open>GenerationResult\<close> is declared in \<^verbatim>\<open>@/lib/types\<close>. The stage is one of the
  two literals the handler writes. A field a literal leaves out is \<open>None\<close>.
\<close>

datatype stage = Completed | Failed

record Metadata =
  mode :: jsstring
  lens :: jsstring
  mood :: jsstring
  engine :: jsstring
  location :: jsstring
  aspectRatio :: jsstring

record GenerationResult =
  id' :: jsstring
  originalName :: jsstring
  stage :: stage
  imageUrl :: "jsstring option"
  validation :: "ValidationResult option"
  metadata :: "Metadata option"
  error :: "jsstring option"

text \<open>Line 53: \<^verbatim>\<open>file.name || `upload-${id}.png`\<close>\<close>

definition originalName_of :: "File \<Rightarrow> jsstring \<Rightarrow> jsstring" where
  "originalName_of file ident =
     (if name file \<noteq> [] then name file else js ''upload-'' @ ident @ js ''.png'')"

text \<open>
  Lines 66 to 82: the primary generator runs only when \<^verbatim>\<open>process.env.FAL_KEY\<close> is
  a non-empty string. The block leaves \<open>(imageUrl, usedEngine)\<close>; a throw of
  \<^verbatim>\<open>generateWithFal\<close> is caught and leaves both as they were.
\<close>

definition truthy :: "jsstring option \<Rightarrow> bool" where
  "truthy v = (case v of None \<Rightarrow> False | Some s \<Rightarrow> s \<noteq> [])"

definition strength :: rat where
  "strength = 42 / 100"

definition primary :: "'w services \<Rightarrow> jsstring \<Rightarrow> jsstring \<Rightarrow> jsstring \<Rightarrow> jsstring
    \<Rightarrow> (jsstring option \<times> jsstring, 'w) io" where
  "primary env base64 positive negative ratio =
     (if truthy (FAL_KEY env)
      then io_catch
             (io_bind (call_generateWithFal env base64 positive negative ratio strength)
                (\<lambda>url. io_return (Some url, js ''fal-ai/flux-pro'')))
             (\<lambda>falError. io_return (None, js ''pollinations''))
      else io_return (None, js ''pollinations''))"

text \<open>Lines 84 to 90: \<^verbatim>\<open>if (!imageUrl)\<close> the fallback generator supplies the URL.\<close>

definition fallback :: "'w services \<Rightarrow> jsstring option \<Rightarrow> jsstring \<Rightarrow> jsstring \<Rightarrow> jsstring
    \<Rightarrow> (jsstring, 'w) io" where
  "fallback env url positive negative ratio =
     (if \<not> truthy url
      then call_generateWithPollinations env positive negative ratio
      else io_return (the url))"

text \<open>Lines 95 to 100: the expectations handed to the validator.\<close>

definition expectations :: "jsstring \<Rightarrow> jsstring \<Rightarrow> jsstring \<Rightarrow> jsstring \<Rightarrow> jsstring list" where
  "expectations md lp mo usedEngine =
     [js ''mode: '' @ md, js ''lens profile: '' @ lp, js ''mood: '' @ mo,
      js ''engine: '' @ usedEngine]"

text \<open>Lines 56 to 124: the body of the \<^verbatim>\<open>try\<close> block.\<close>

definition generation :: "'w services \<Rightarrow> File \<Rightarrow> jsstring \<Rightarrow> jsstring \<Rightarrow> jsstring \<Rightarrow> jsstring
    \<Rightarrow> jsstring list \<Rightarrow> jsstring \<Rightarrow> jsstring \<Rightarrow> jsstring \<Rightarrow> (GenerationResult, 'w) io" where
  "generation env file loc md lp mo emphasis ratio ident oname =
     io_bind (call_buildPrompt env loc md lp mo emphasis)
       (\<lambda>(positive, negative).
     io_bind (call_fileToBase64 env file)
       (\<lambda>base64.
     io_bind (primary env base64 positive negative ratio)
       (\<lambda>(url0, usedEngine).
     io_bind (fallback env url0 positive negative ratio)
       (\<lambda>url.
     io_bind (call_validateMarineScene env url loc (expectations md lp mo usedEngine))
       (\<lambda>v.
     io_return
       \<lparr>id' = ident, originalName = oname,
        stage = (if status v = js ''flagged'' then Failed else Completed),
        imageUrl = Some url,
        validation = Some \<lparr>status = status v, issues = issues v, reasoning = reasoning v\<rparr>,
        metadata = Some \<lparr>mode = md, lens = lp, mood = mo, engine = usedEngine,
                          location = loc, aspectRatio = ratio\<rparr>,
        error = None\<rparr>)))))"

text \<open>Lines 125 to 136: the \<^verbatim>\<open>catch\<close> block.\<close>

definition failure :: "jsstring \<Rightarrow> jsstring \<Rightarrow> thrown \<Rightarrow> GenerationResult" where
  "failure ident oname err =
     \<lparr>id' = ident, originalName = oname, stage = Failed,
      imageUrl = None, validation = None, metadata = None,
      error = Some (case err of
                      ErrorObj message \<Rightarrow> message
                    | NonError \<Rightarrow> js ''Unknown generation error encountered.'')\<rparr>"

definition runGeneration :: "'w services \<Rightarrow> File \<Rightarrow> jsstring \<Rightarrow> jsstring \<Rightarrow> jsstring \<Rightarrow> jsstring
    \<Rightarrow> jsstring list \<Rightarrow> jsstring \<Rightarrow> (GenerationResult, 'w) io" where
  "runGeneration env file loc md lp mo emphasis ratio =
     io_bind (call_randomUUID env)
       (\<lambda>ident.
          io_catch
            (generation env file loc md lp mo emphasis ratio ident (originalName_of file ident))
            (\<lambda>err. io_return (failure ident (originalName_of file ident) err)))"

section \<open>POST\<close>

text \<open>Lines 142 to 154: the request parameters read from the form.\<close>

definition POST_location :: "formdata \<Rightarrow> jsstring" where
  "POST_location fd =
     (case field_text fd (js ''location'') of
        None \<Rightarrow> js ''local waterways''
      | Some t \<Rightarrow> if trim t \<noteq> [] then trim t else js ''local waterways'')"

definition POST_mode :: "formdata \<Rightarrow> jsstring" where
  "POST_mode fd = (case field_text fd (js ''mode'') of None \<Rightarrow> js ''running'' | Some t \<Rightarrow> t)"

definition POST_lens :: "formdata \<Rightarrow> jsstring" where
  "POST_lens fd = (case field_text fd (js ''lens'') of None \<Rightarrow> js ''wide'' | Some t \<Rightarrow> t)"

definition POST_mood :: "formdata \<Rightarrow> jsstring" where
  "POST_mood fd = (case field_text fd (js ''mood'') of None \<Rightarrow> js ''sunrise'' | Some t \<Rightarrow> t)"

definition POST_emphasis :: "'w services \<Rightarrow> formdata \<Rightarrow> jsstring list" where
  "POST_emphasis env fd = parseJsonArray env (formData_get fd (js ''emphasis''))"

definition POST_aspectRatio :: "formdata \<Rightarrow> jsstring" where
  "POST_aspectRatio fd =
     (let aspectRatioRaw =
            (case field_text fd (js ''aspectRatio'') of None \<Rightarrow> js ''3:2'' | Some t \<Rightarrow> t)
      in if aspectRatioRaw = js ''1:1'' \<or> aspectRatioRaw = js ''4:3'' \<or>
            aspectRatioRaw = js ''16:9''
         then aspectRatioRaw
         else js ''3:2'')"

text \<open>Lines 156 to 158: the entries named \<^verbatim>\<open>images\<close> that are files.\<close>

fun files_only :: "entry list \<Rightarrow> File list" where
  "files_only [] = []"
| "files_only (StringEntry s # es) = files_only es"
| "files_only (FileEntry f # es) = f # files_only es"

definition POST_files :: "formdata \<Rightarrow> File list" where
  "POST_files fd = files_only (formData_getAll fd (js ''images''))"

text \<open>Lines 167 to 180: the loop over the files, \<open>results\<close> being the array so far.\<close>

fun run_files :: "'w services \<Rightarrow> jsstring \<Rightarrow> jsstring \<Rightarrow> jsstring \<Rightarrow> jsstring \<Rightarrow> jsstring list
    \<Rightarrow> jsstring \<Rightarrow> File list \<Rightarrow> GenerationResult list \<Rightarrow> (GenerationResult list, 'w) io" where
  "run_files env loc md lp mo emphasis ratio [] results = io_return results"
| "run_files env loc md lp mo emphasis ratio (file # files) results =
     io_bind (runGeneration env file loc md lp mo emphasis ratio)
       (\<lambda>result. run_files env loc md lp mo emphasis ratio files (results @ [result]))"

text \<open>
  The JSON body of the response: the error object of line 162, or the object of lines
  182 to 188 with \<open>location\<close>, \<open>mode\<close>, \<open>lens\<close>, \<open>mood\<close> and \<open>results\<close>.
\<close>

datatype body =
    ErrorBody jsstring
  | BatchBody jsstring jsstring jsstring jsstring "GenerationResult list"

record response =
  httpStatus :: nat
  json :: body

text \<open>
  \<^verbatim>\<open>POST(request)\<close>. The request is what \<^verbatim>\<open>await request.formData()\<close> gives: the
  form data, or the value it throws.
\<close>

definition POST :: "'w services \<Rightarrow> thrown + formdata \<Rightarrow> (response, 'w) io" where
  "POST env request =
     io_bind (case request of Inl e \<Rightarrow> io_throw e | Inr fd \<Rightarrow> io_return fd)
       (\<lambda>formData.
          if POST_files formData = []
          then io_return \<lparr>httpStatus = 400, json = ErrorBody (js ''No images provided.'')\<rparr>
          else io_bind
                 (run_files env (POST_location formData) (POST_mode formData)
                    (POST_lens formData) (POST_mood formData) (POST_emphasis env formData)
                    (POST_aspectRatio formData) (POST_files formData) [])
                 (\<lambda>results.
                    io_return
                      \<lparr>httpStatus = 200,
                       json = BatchBody (POST_location formData) (POST_mode formData)
                                (POST_lens formData) (POST_mood formData) results\<rparr>))"

section \<open>Reading the record of calls\<close>

text \<open>
  A call agrees with the request parameters when the arguments it takes from them are
  those parameters: \<^verbatim>\<open>buildPrompt\<close> takes the location, mode, lens, mood and
  emphasis list, the two generators take the aspect ratio, and the validator takes the
  location.
\<close>

fun call_agrees :: "jsstring \<Rightarrow> jsstring \<Rightarrow> jsstring \<Rightarrow> jsstring \<Rightarrow> jsstring list \<Rightarrow> jsstring
    \<Rightarrow> call \<Rightarrow> bool" where
  "call_agrees loc md lp mo emphasis ratio (Call_buildPrompt l m p c e) =
     (l = loc \<and> m = md \<and> p = lp \<and> c = mo \<and> e = emphasis)"
| "call_agrees loc md lp mo emphasis ratio (Call_generateWithFal b p n a st) = (a = ratio)"
| "call_agrees loc md lp mo emphasis ratio (Call_generateWithPollinations p n a) = (a = ratio)"
| "call_agrees loc md lp mo emphasis ratio (Call_validateMarineScene u l ex) = (l = loc)"
| "call_agrees loc md lp mo emphasis ratio Call_randomUUID = True"
| "call_agrees loc md lp mo emphasis ratio (Call_fileToBase64 f) = True"

text \<open>
  A computation keeps to \<open>P\<close> when it only appends calls to the record, and every
  call it appends satisfies \<open>P\<close>.
\<close>

definition keeps_to :: "(call \<Rightarrow> bool) \<Rightarrow> ('a, 'w) io \<Rightarrow> bool" where
  "keeps_to P m \<longleftrightarrow>
     (\<forall>s r s'. m s = (r, s') \<longrightarrow> (\<exists>new. snd s' = snd s @ new \<and> list_all P new))"

section \<open>A stub of the services, for concrete runs\<close>

text \<open>
  The world of the stub counts the calls made. Identifiers are \<^verbatim>\<open>uuid-0\<close>,
  \<^verbatim>\<open>uuid-1\<close>, ...; a file named \<^verbatim>\<open>broken.png\<close> cannot be encoded; the generators
  answer with a URL that ends in the aspect ratio; the validator approves. The parser
  knows two texts and rejects every other one.
\<close>

definition emphasis_plain :: jsstring where
  \<open>emphasis_plain = js ''["clean foam ", "  ", true, null]''\<close>

definition emphasis_odd :: jsstring where
  \<open>emphasis_odd = js ''[{"toString":null}]''\<close>

definition demo_parse :: "jsstring \<Rightarrow> thrown + json" where
  "demo_parse text =
     (if text = emphasis_plain
      then Inr (JArr [JStr (js ''clean foam ''), JStr (js ''  ''), JBool True, JNull])
      else if text = emphasis_odd
      then Inr (JArr [JObj [(js ''toString'', JNull)]])
      else Inl (ErrorObj (js ''Unexpected token'')))"

definition demo :: "nat services" where
  "demo =
     \<lparr>FAL_KEY = None,
      JSON_parse = demo_parse,
      Number_toString = (\<lambda>x. js ''0''),
      randomUUID = (\<lambda>w. (js ''uuid-'' @ [of_nat (48 + w)], Suc w)),
      buildPrompt = (\<lambda>loc md lp mo emphasis w.
        (Inr (js ''boat at '' @ loc, js ''trailer''), Suc w)),
      fileToBase64 = (\<lambda>file w.
        if name file = js ''broken.png''
        then (Inl (ErrorObj (js ''unreadable file'')), Suc w)
        else (Inr (js ''QUJD''), Suc w)),
      generateWithFal = (\<lambda>base64 positive negative ratio st w.
        (Inr (js ''https://fal/'' @ ratio), Suc w)),
      generateWithPollinations = (\<lambda>positive negative ratio w.
        (Inr (js ''https://pollinations/'' @ ratio), Suc w)),
      validateMarineScene = (\<lambda>url loc expected w.
        (Inr \<lparr>status = js ''approved'', issues = [], reasoning = js ''on water''\<rparr>, Suc w))\<rparr>"

text \<open>The stub with the primary generator configured.\<close>

definition demo_fal :: "nat services" where
  "demo_fal = demo\<lparr>FAL_KEY := Some (js ''key'')\<rparr>"

text \<open>The primary generator configured, and throwing.\<close>

definition demo_fal_throws :: "nat services" where
  "demo_fal_throws =
     demo_fal\<lparr>generateWithFal := (\<lambda>base64 positive negative ratio st w.
        (Inl (ErrorObj (js ''fal unavailable'')), Suc w))\<rparr>"

text \<open>The primary generator configured, and resolving to the empty string.\<close>

definition demo_fal_empty :: "nat services" where
  "demo_fal_empty =
     demo_fal\<lparr>generateWithFal := (\<lambda>base64 positive negative ratio st w. (Inr [], Suc w))\<rparr>"

text \<open>The validator flagging every image.\<close>

definition demo_flagged :: "nat services" where
  "demo_flagged =
     demo\<lparr>validateMarineScene := (\<lambda>url loc expected w.
        (Inr \<lparr>status = js ''flagged'', issues = [js ''trailer visible''],
              reasoning = js ''not on water''\<rparr>, Suc w))\<rparr>"

definition boat :: File where
  "boat = \<lparr>name = js ''boat.png'', bytes = [0x89, 0x50]\<rparr>"

definition broken :: File where
  "broken = \<lparr>name = js ''broken.png'', bytes = []\<rparr>"

definition unnamed :: File where
  "unnamed = \<lparr>name = [], bytes = [0xFF]\<rparr>"

text \<open>
  A request with three files, the second of them the one that cannot be encoded, and
  a request whose mode, lens and mood are outside the values the page offers.
\<close>

definition batch :: formdata where
  "batch =
     [(js ''images'', FileEntry boat),
      (js ''mode'', StringEntry (js ''anchored'')),
      (js ''images'', FileEntry broken),
      (js ''note'', StringEntry (js ''images'')),
      (js ''images'', FileEntry unnamed)]"

definition odd_request :: formdata where
  "odd_request =
     [(js ''images'', FileEntry boat),
      (js ''mode'', StringEntry (js ''flying'')),
      (js ''lens'', StringEntry (js ''fisheye'')),
      (js ''mood'', StringEntry (js ''noon''))]"

section \<open>The values the page offers\<close>

text \<open>
  The \<open>value\<close> fields of the tables \<^verbatim>\<open>MODES\<close>, \<^verbatim>\<open>MOODS\<close> and \<^verbatim>\<open>LENSES\<close> of
  the page component: the members of the types \<^verbatim>\<open>JourneyMode\<close>, \<^verbatim>\<open>CameraMood\<close>
  and \<^verbatim>\<open>LensProfile\<close>.
\<close>

definition MODES :: "jsstring list" where
  "MODES = [js ''running'', js ''anchored'', js ''showcase'']"

definition MOODS :: "jsstring list" where
  "MOODS = [js ''sunrise'', js ''midday'', js ''sunset'', js ''night'']"

definition LENSES :: "jsstring list" where
  "LENSES = [js ''wide'', js ''telephoto'', js ''immersive'']"

section \<open>Facts about literals and trimming\<close>

lemma of_char_word_eq:
  "(of_nat (of_char c) :: 16 word) = of_nat (of_char d) \<longleftrightarrow> c = d"
proof -
  have bound: "(of_char x :: nat) < 2 ^ 16" for x
  proof -
    have "(of_char x :: nat) < 256"
      by (cases x) (simp add: horner_sum_eq_sum)
    moreover have "(256::nat) < 2 ^ 16"
      by simp
    ultimately show ?thesis
      by (rule less_trans)
  qed
  have "unat (of_nat (of_char x) :: 16 word) = of_char x" for x
    using bound [of x] by (simp add: unat_of_nat take_bit_nat_eq_self)
  then show ?thesis
    by (metis of_char_eq_iff)
qed

lemma js_eq_iff [simp]: "js a = js b \<longleftrightarrow> a = b"
  unfolding js_def by (simp add: inj_map_eq_map inj_def of_char_word_eq)

lemma js_Nil [simp]: "js [] = []" "js s = [] \<longleftrightarrow> s = []" "[] = js s \<longleftrightarrow> s = []"
  by (auto simp: js_def)

lemma dropWhile_all: "list_all P xs \<Longrightarrow> dropWhile P xs = []"
  by (induction xs) auto

lemma trim_whitespace: "list_all isWhiteSpace t \<Longrightarrow> trim t = []"
  by (simp add: trim_def dropWhile_all)

section \<open>Facts about runGeneration\<close>

lemma primary_returns:
  "\<exists>url0 usedEngine s'.
     primary env base64 positive negative ratio s = (Inr (url0, usedEngine), s')"
  by (simp add: primary_def io_catch_def io_bind_def io_return_def
      split: prod.splits sum.splits)

lemma primary_never_throws [simp]:
  "primary env base64 positive negative ratio s \<noteq> (Inl e, s')"
  using primary_returns [of env base64 positive negative ratio s] by auto

lemma call_randomUUID_returns:
  "call_randomUUID env s =
     (Inr (fst (randomUUID env (fst s))),
      (snd (randomUUID env (fst s)), snd s @ [Call_randomUUID]))"
  by (simp add: call_randomUUID_def invoke_def split: prod.splits)

lemma runGeneration_unfold:
  assumes "call_randomUUID env s = (Inr ident, s1)"
  shows "runGeneration env file loc md lp mo emphasis ratio s =
     (case generation env file loc md lp mo emphasis ratio ident
             (originalName_of file ident) s1 of
        (Inl err, s') \<Rightarrow> (Inr (failure ident (originalName_of file ident) err), s')
      | (Inr r, s') \<Rightarrow> (Inr r, s'))"
  using assms
  by (simp add: runGeneration_def io_bind_def io_catch_def io_return_def
      split: prod.splits sum.splits)

lemma runGeneration_returns:
  "\<exists>r s'. runGeneration env file loc md lp mo emphasis ratio s = (Inr r, s')"
  by (simp add: runGeneration_unfold [OF call_randomUUID_returns]
      split: prod.splits sum.splits)

text \<open>The \<^verbatim>\<open>try\<close> block throws exactly when one of its four fallible steps does.\<close>

lemma generation_throws_iff:
  "generation env file loc md lp mo emphasis ratio ident oname s1 = (Inl err, s') \<longleftrightarrow>
     call_buildPrompt env loc md lp mo emphasis s1 = (Inl err, s') \<or>
     (\<exists>positive negative s2.
        call_buildPrompt env loc md lp mo emphasis s1 = (Inr (positive, negative), s2) \<and>
        (call_fileToBase64 env file s2 = (Inl err, s') \<or>
         (\<exists>base64 s3 url0 usedEngine s4.
            call_fileToBase64 env file s2 = (Inr base64, s3) \<and>
            primary env base64 positive negative ratio s3 = (Inr (url0, usedEngine), s4) \<and>
            (fallback env url0 positive negative ratio s4 = (Inl err, s') \<or>
             (\<exists>url s5.
                fallback env url0 positive negative ratio s4 = (Inr url, s5) \<and>
                call_validateMarineScene env url loc (expectations md lp mo usedEngine) s5 =
                  (Inl err, s'))))))"
  unfolding generation_def io_bind_def io_return_def
  by (auto split: prod.splits sum.splits)

lemma generation_returns:
  assumes "call_buildPrompt env loc md lp mo emphasis s1 = (Inr (positive, negative), s2)"
    and "call_fileToBase64 env file s2 = (Inr base64, s3)"
    and "primary env base64 positive negative ratio s3 = (Inr (url0, usedEngine), s4)"
    and "fallback env url0 positive negative ratio s4 = (Inr url, s5)"
    and "call_validateMarineScene env url loc (expectations md lp mo usedEngine) s5 =
           (Inr v, s6)"
  shows "generation env file loc md lp mo emphasis ratio ident oname s1 =
    (Inr \<lparr>id' = ident, originalName = oname,
        stage = (if status v = js ''flagged'' then Failed else Completed),
        imageUrl = Some url,
        validation = Some \<lparr>status = status v, issues = issues v, reasoning = reasoning v\<rparr>,
        metadata = Some \<lparr>mode = md, lens = lp, mood = mo, engine = usedEngine,
                          location = loc, aspectRatio = ratio\<rparr>,
        error = None\<rparr>, s6)"
  using assms by (simp add: generation_def io_bind_def io_return_def)

section \<open>Evaluating the stub\<close>

lemmas stub_simps = demo_def demo_fal_def demo_parse_def boat_def broken_def unnamed_def

lemmas post_simps = POST_def POST_files_def POST_location_def POST_mode_def POST_lens_def
  POST_mood_def POST_emphasis_def POST_aspectRatio_def formData_get_def formData_getAll_def
  field_text_def parseJsonArray_def runGeneration_def generation_def failure_def

lemmas run_simps = call_randomUUID_def call_buildPrompt_def call_fileToBase64_def
  call_generateWithFal_def call_generateWithPollinations_def call_validateMarineScene_def
  invoke_def io_bind_def io_catch_def io_return_def io_throw_def primary_def fallback_def
  truthy_def expectations_def originalName_of_def strength_def

section \<open>Failures of one item\<close>

text \<open>
  C1. If a step of an item's generation throws (prompt construction, base64 encoding,
  the fallback generator or validation), \<^verbatim>\<open>runGeneration\<close> catches the thrown value
  and returns a result with stage \<^verbatim>\<open>failed\<close> and an error string: the message of an
  \<^verbatim>\<open>Error\<close>, or \<^verbatim>\<open>Unknown generation error encountered.\<close> for any other value.
  The result carries the item's id and original file name and has no image URL, no
  validation and no metadata.
\<close>

theorem runGeneration_catches:
  assumes "call_randomUUID env s = (Inr ident, s1)"
    and "call_buildPrompt env loc md lp mo emphasis s1 = (Inl err, s') \<or>
     (\<exists>positive negative s2.
        call_buildPrompt env loc md lp mo emphasis s1 = (Inr (positive, negative), s2) \<and>
        (call_fileToBase64 env file s2 = (Inl err, s') \<or>
         (\<exists>base64 s3 url0 usedEngine s4.
            call_fileToBase64 env file s2 = (Inr base64, s3) \<and>
            primary env base64 positive negative ratio s3 = (Inr (url0, usedEngine), s4) \<and>
            (fallback env url0 positive negative ratio s4 = (Inl err, s') \<or>
             (\<exists>url s5.
                fallback env url0 positive negative ratio s4 = (Inr url, s5) \<and>
                call_validateMarineScene env url loc (expectations md lp mo usedEngine) s5 =
                  (Inl err, s'))))))"
  shows "runGeneration env file loc md lp mo emphasis ratio s =
     (Inr \<lparr>id' = ident, originalName = originalName_of file ident, stage = Failed,
           imageUrl = None, validation = None, metadata = None,
           error = Some (case err of
                           ErrorObj message \<Rightarrow> message
                         | NonError \<Rightarrow> js ''Unknown generation error encountered.'')\<rparr>,
      s')"
proof -
  have "generation env file loc md lp mo emphasis ratio ident (originalName_of file ident) s1 =
      (Inl err, s')"
    using assms(2) by (simp only: generation_throws_iff)
  then show ?thesis
    by (simp add: runGeneration_unfold [OF assms(1)] failure_def)
qed

text \<open>On the stub, the file that cannot be encoded gives a failed result.\<close>

theorem runGeneration_catches_witness:
  "runGeneration demo broken (js ''Miami'') (js ''running'') (js ''wide'') (js ''sunrise'') []
     (js ''3:2'') (0, []) =
     (Inr \<lparr>id' = js ''uuid-0'', originalName = js ''broken.png'', stage = Failed,
           imageUrl = None, validation = None, metadata = None,
           error = Some (js ''unreadable file'')\<rparr>,
      (3, [Call_randomUUID,
           Call_buildPrompt (js ''Miami'') (js ''running'') (js ''wide'') (js ''sunrise'') [],
           Call_fileToBase64 broken]))"
proof -
  have u: "call_randomUUID demo (0, []) = (Inr (js ''uuid-0''), (1, [Call_randomUUID]))"
    by (simp add: stub_simps run_simps js_def)
  have b: "call_buildPrompt demo (js ''Miami'') (js ''running'') (js ''wide'') (js ''sunrise'') []
        (1, [Call_randomUUID]) =
      (Inr (js ''boat at Miami'', js ''trailer''),
       (2, [Call_randomUUID,
            Call_buildPrompt (js ''Miami'') (js ''running'') (js ''wide'') (js ''sunrise'') []]))"
    by (simp add: stub_simps run_simps js_def)
  have f: "call_fileToBase64 demo broken
        (2, [Call_randomUUID,
             Call_buildPrompt (js ''Miami'') (js ''running'') (js ''wide'') (js ''sunrise'') []]) =
      (Inl (ErrorObj (js ''unreadable file'')),
       (3, [Call_randomUUID,
            Call_buildPrompt (js ''Miami'') (js ''running'') (js ''wide'') (js ''sunrise'') [],
            Call_fileToBase64 broken]))"
    by (simp add: stub_simps run_simps)
  show ?thesis
    using runGeneration_catches [OF u, of "js ''Miami''" "js ''running''" "js ''wide''"
        "js ''sunrise''" "[]" "ErrorObj (js ''unreadable file'')" _ broken "js ''3:2''"] b f
    by (simp add: originalName_of_def broken_def)
qed

text \<open>
  C2. With the primary provider configured (\<^verbatim>\<open>FAL_KEY\<close> set), a throw of
  \<^verbatim>\<open>generateWithFal\<close> does not fail the item: the next call is
  \<^verbatim>\<open>generateWithPollinations\<close> with the same positive prompt, negative prompt and
  aspect ratio, and when that call and the validation return, the item's result is the
  normal one, built from the fallback's URL.
\<close>

theorem fal_throw_falls_back:
  assumes "truthy (FAL_KEY env)"
    and "call_randomUUID env s = (Inr ident, s1)"
    and "call_buildPrompt env loc md lp mo emphasis s1 = (Inr (positive, negative), s2)"
    and "call_fileToBase64 env file s2 = (Inr base64, s3)"
    and "call_generateWithFal env base64 positive negative ratio strength s3 =
           (Inl falError, s4)"
  shows "\<exists>r s'. runGeneration env file loc md lp mo emphasis ratio s = (Inr r, s') \<and>
     (\<exists>rest. snd s' = snd s4 @ Call_generateWithPollinations positive negative ratio # rest) \<and>
     (\<forall>url s5 v s6.
        call_generateWithPollinations env positive negative ratio s4 = (Inr url, s5) \<and>
        call_validateMarineScene env url loc (expectations md lp mo (js ''pollinations'')) s5 =
          (Inr v, s6)
        \<longrightarrow> s' = s6 \<and>
            r = \<lparr>id' = ident, originalName = originalName_of file ident,
                 stage = (if status v = js ''flagged'' then Failed else Completed),
                 imageUrl = Some url,
                 validation =
                   Some \<lparr>status = status v, issues = issues v, reasoning = reasoning v\<rparr>,
                 metadata =
                   Some \<lparr>mode = md, lens = lp, mood = mo, engine = js ''pollinations'',
                         location = loc, aspectRatio = ratio\<rparr>,
                 error = None\<rparr>)"
proof -
  let ?c = "Call_generateWithPollinations positive negative ratio"
  let ?ex = "expectations md lp mo (js ''pollinations'')"
  have p: "primary env base64 positive negative ratio s3 = (Inr (None, js ''pollinations''), s4)"
    using assms(1,5) by (simp add: primary_def io_catch_def io_bind_def io_return_def)
  have f: "fallback env None positive negative ratio s4 =
      call_generateWithPollinations env positive negative ratio s4"
    by (simp add: fallback_def truthy_def)
  obtain x w' where x: "generateWithPollinations env positive negative ratio (fst s4) = (x, w')"
    by (cases "generateWithPollinations env positive negative ratio (fst s4)")
  have c: "call_generateWithPollinations env positive negative ratio s4 =
      (x, (w', snd s4 @ [?c]))"
    using x by (simp add: call_generateWithPollinations_def invoke_def)
  show ?thesis
  proof (cases x)
    case (Inl err)
    have "runGeneration env file loc md lp mo emphasis ratio s =
        (Inr (failure ident (originalName_of file ident) err), (w', snd s4 @ [?c]))"
      using assms(2-4) p f c Inl
      by (simp add: runGeneration_unfold [OF assms(2)] generation_def io_bind_def io_return_def)
    then show ?thesis
      using c Inl by simp
  next
    case (Inr url)
    obtain y s6 where y: "call_validateMarineScene env url loc ?ex (w', snd s4 @ [?c]) = (y, s6)"
      by (cases "call_validateMarineScene env url loc ?ex (w', snd s4 @ [?c])")
    then have ext: "snd s6 = snd s4 @ ?c # [Call_validateMarineScene url loc ?ex]"
      by (auto simp: call_validateMarineScene_def invoke_def split: prod.splits)
    show ?thesis
      using assms(2-4) p f c Inr y ext
      by (cases y)
        (simp_all add: runGeneration_unfold [OF assms(2)] generation_def io_bind_def
          io_return_def)
  qed
qed

text \<open>On the stub whose primary generator throws, the item completes through the fallback.\<close>

theorem fal_throw_falls_back_witness:
  "truthy (FAL_KEY demo_fal_throws) \<and>
   call_generateWithFal demo_fal_throws (js ''QUJD'') (js ''boat at Miami'') (js ''trailer'')
     (js ''16:9'') strength
     (3, [Call_randomUUID,
          Call_buildPrompt (js ''Miami'') (js ''running'') (js ''wide'') (js ''sunrise'') [],
          Call_fileToBase64 boat]) =
     (Inl (ErrorObj (js ''fal unavailable'')),
      (4, [Call_randomUUID,
           Call_buildPrompt (js ''Miami'') (js ''running'') (js ''wide'') (js ''sunrise'') [],
           Call_fileToBase64 boat,
           Call_generateWithFal (js ''QUJD'') (js ''boat at Miami'') (js ''trailer'')
             (js ''16:9'') strength])) \<and>
   runGeneration demo_fal_throws boat (js ''Miami'') (js ''running'') (js ''wide'')
     (js ''sunrise'') [] (js ''16:9'') (0, []) =
     (Inr \<lparr>id' = js ''uuid-0'', originalName = js ''boat.png'', stage = Completed,
           imageUrl = Some (js ''https://pollinations/16:9''),
           validation =
             Some \<lparr>status = js ''approved'', issues = [], reasoning = js ''on water''\<rparr>,
           metadata =
             Some \<lparr>mode = js ''running'', lens = js ''wide'', mood = js ''sunrise'',
                   engine = js ''pollinations'', location = js ''Miami'',
                   aspectRatio = js ''16:9''\<rparr>,
           error = None\<rparr>,
      (6, [Call_randomUUID,
           Call_buildPrompt (js ''Miami'') (js ''running'') (js ''wide'') (js ''sunrise'') [],
           Call_fileToBase64 boat,
           Call_generateWithFal (js ''QUJD'') (js ''boat at Miami'') (js ''trailer'')
             (js ''16:9'') strength,
           Call_generateWithPollinations (js ''boat at Miami'') (js ''trailer'') (js ''16:9''),
           Call_validateMarineScene (js ''https://pollinations/16:9'') (js ''Miami'')
             (expectations (js ''running'') (js ''wide'') (js ''sunrise'')
                (js ''pollinations''))]))"
proof -
  let ?bp = "Call_buildPrompt (js ''Miami'') (js ''running'') (js ''wide'') (js ''sunrise'') []"
  let ?fal = "Call_generateWithFal (js ''QUJD'') (js ''boat at Miami'') (js ''trailer'')
    (js ''16:9'') strength"
  let ?pol = "Call_generateWithPollinations (js ''boat at Miami'') (js ''trailer'') (js ''16:9'')"
  let ?ex = "expectations (js ''running'') (js ''wide'') (js ''sunrise'') (js ''pollinations'')"
  have k: "truthy (FAL_KEY demo_fal_throws)"
    by (simp add: demo_fal_throws_def stub_simps truthy_def)
  have u: "call_randomUUID demo_fal_throws (0, []) =
      (Inr (js ''uuid-0''), (1, [Call_randomUUID]))"
    by (simp add: demo_fal_throws_def stub_simps run_simps js_def)
  have b: "call_buildPrompt demo_fal_throws (js ''Miami'') (js ''running'') (js ''wide'')
        (js ''sunrise'') [] (1, [Call_randomUUID]) =
      (Inr (js ''boat at Miami'', js ''trailer''), (2, [Call_randomUUID, ?bp]))"
    by (simp add: demo_fal_throws_def stub_simps run_simps js_def)
  have f: "call_fileToBase64 demo_fal_throws boat (2, [Call_randomUUID, ?bp]) =
      (Inr (js ''QUJD''), (3, [Call_randomUUID, ?bp, Call_fileToBase64 boat]))"
    by (simp add: demo_fal_throws_def stub_simps run_simps)
  have g: "call_generateWithFal demo_fal_throws (js ''QUJD'') (js ''boat at Miami'')
        (js ''trailer'') (js ''16:9'') strength
        (3, [Call_randomUUID, ?bp, Call_fileToBase64 boat]) =
      (Inl (ErrorObj (js ''fal unavailable'')),
       (4, [Call_randomUUID, ?bp, Call_fileToBase64 boat, ?fal]))"
    by (simp add: demo_fal_throws_def stub_simps run_simps)
  have p: "call_generateWithPollinations demo_fal_throws (js ''boat at Miami'') (js ''trailer'')
        (js ''16:9'') (4, [Call_randomUUID, ?bp, Call_fileToBase64 boat, ?fal]) =
      (Inr (js ''https://pollinations/16:9''),
       (5, [Call_randomUUID, ?bp, Call_fileToBase64 boat, ?fal, ?pol]))"
    by (simp add: demo_fal_throws_def stub_simps run_simps js_def)
  have v: "call_validateMarineScene demo_fal_throws (js ''https://pollinations/16:9'')
        (js ''Miami'') ?ex (5, [Call_randomUUID, ?bp, Call_fileToBase64 boat, ?fal, ?pol]) =
      (Inr \<lparr>status = js ''approved'', issues = [], reasoning = js ''on water''\<rparr>,
       (6, [Call_randomUUID, ?bp, Call_fileToBase64 boat, ?fal, ?pol,
            Call_validateMarineScene (js ''https://pollinations/16:9'') (js ''Miami'') ?ex]))"
    by (simp add: demo_fal_throws_def stub_simps run_simps)
  show ?thesis
    using fal_throw_falls_back [OF k u b f g] p v k g
    by (auto simp: originalName_of_def boat_def)
qed

section \<open>Facts about the record of calls\<close>


lemma io_bind_return: "io_bind (io_return x) f = f x"
  by (rule ext) (simp add: io_bind_def io_return_def)

lemma keeps_to_return: "keeps_to P (io_return x)"
  by (simp add: keeps_to_def io_return_def)

lemma keeps_to_throw: "keeps_to P (io_throw e)"
  by (simp add: keeps_to_def io_throw_def)

lemma keeps_to_invoke: "P c \<Longrightarrow> keeps_to P (invoke c f)"
  by (auto simp: keeps_to_def invoke_def split: prod.splits)

lemma keeps_to_bind:
  assumes "keeps_to P m" and "\<And>x. keeps_to P (f x)"
  shows "keeps_to P (io_bind m f)"
  unfolding keeps_to_def
proof (intro allI impI)
  fix s r s'
  assume run: "io_bind m f s = (r, s')"
  obtain r1 s1 where m: "m s = (r1, s1)"
    by (cases "m s")
  then obtain n1 where n1: "snd s1 = snd s @ n1" "list_all P n1"
    using assms(1) unfolding keeps_to_def by blast
  show "\<exists>new. snd s' = snd s @ new \<and> list_all P new"
  proof (cases r1)
    case (Inl e)
    then show ?thesis
      using run m n1 by (auto simp: io_bind_def)
  next
    case (Inr x)
    then have "f x s1 = (r, s')"
      using run m by (simp add: io_bind_def)
    then obtain n2 where "snd s' = snd s1 @ n2" "list_all P n2"
      using assms(2) [of x] unfolding keeps_to_def by blast
    then show ?thesis
      using n1 by (intro exI [of _ "n1 @ n2"]) simp
  qed
qed

lemma keeps_to_catch:
  assumes "keeps_to P m" and "\<And>e. keeps_to P (h e)"
  shows "keeps_to P (io_catch m h)"
  unfolding keeps_to_def
proof (intro allI impI)
  fix s r s'
  assume run: "io_catch m h s = (r, s')"
  obtain r1 s1 where m: "m s = (r1, s1)"
    by (cases "m s")
  then obtain n1 where n1: "snd s1 = snd s @ n1" "list_all P n1"
    using assms(1) unfolding keeps_to_def by blast
  show "\<exists>new. snd s' = snd s @ new \<and> list_all P new"
  proof (cases r1)
    case (Inr x)
    then show ?thesis
      using run m n1 by (auto simp: io_catch_def)
  next
    case (Inl e)
    then have "h e s1 = (r, s')"
      using run m by (simp add: io_catch_def)
    then obtain n2 where "snd s' = snd s1 @ n2" "list_all P n2"
      using assms(2) [of e] unfolding keeps_to_def by blast
    then show ?thesis
      using n1 by (intro exI [of _ "n1 @ n2"]) simp
  qed
qed

lemma runGeneration_keeps_to:
  "keeps_to (call_agrees loc md lp mo emphasis ratio)
     (runGeneration env file loc md lp mo emphasis ratio)"
  unfolding runGeneration_def generation_def primary_def fallback_def
    call_randomUUID_def call_buildPrompt_def call_fileToBase64_def call_generateWithFal_def
    call_generateWithPollinations_def call_validateMarineScene_def
  by (auto intro!: keeps_to_bind keeps_to_catch keeps_to_invoke keeps_to_return)

lemma run_files_keeps_to:
  "keeps_to (call_agrees loc md lp mo emphasis ratio)
     (run_files env loc md lp mo emphasis ratio files results)"
  by (induction files arbitrary: results)
    (auto intro!: keeps_to_bind keeps_to_return runGeneration_keeps_to)

lemma POST_keeps_to:
  "keeps_to (call_agrees (POST_location fd) (POST_mode fd) (POST_lens fd) (POST_mood fd)
       (POST_emphasis env fd) (POST_aspectRatio fd))
     (POST env (Inr fd))"
  by (auto simp: POST_def io_bind_return intro!: keeps_to_bind keeps_to_return run_files_keeps_to)

section \<open>The empty batch\<close>

text \<open>
  C9. When the form data has no \<^verbatim>\<open>File\<close> entry named \<^verbatim>\<open>images\<close>, the endpoint
  answers with status 400 and the body \<^verbatim>\<open>{"error": "No images provided."}\<close>, and it
  calls no service: the world and the record of calls are left as they were.
\<close>

theorem POST_no_images:
  assumes "POST_files fd = []"
  shows "POST env (Inr fd) s =
     (Inr \<lparr>httpStatus = 400, json = ErrorBody (js ''No images provided.'')\<rparr>, s)"
  using assms by (simp add: POST_def io_bind_def io_return_def)

theorem POST_no_images_witness:
  "POST_files [(js ''location'', StringEntry (js ''Miami'')), (js ''images'', StringEntry (js ''boat.png''))] = [] \<and>
   POST demo_fal (Inr [(js ''location'', StringEntry (js ''Miami'')), (js ''images'', StringEntry (js ''boat.png''))]) (0, []) =
     (Inr \<lparr>httpStatus = 400, json = ErrorBody (js ''No images provided.'')\<rparr>, (0, []))"
proof -
  have h: "POST_files [(js ''location'', StringEntry (js ''Miami'')), (js ''images'', StringEntry (js ''boat.png''))] = []"
    by (simp add: POST_files_def formData_getAll_def)
  show ?thesis
    using h POST_no_images [OF h, of demo_fal "(0, [])"] by simp
qed

section \<open>The stage of a generated item\<close>

text \<open>
  C4. When every call of an item's generation and its validation return without
  throwing, the result's stage is \<^verbatim>\<open>failed\<close> exactly when the validation status is
  \<^verbatim>\<open>flagged\<close>, and \<^verbatim>\<open>completed\<close> otherwise, in particular for \<^verbatim>\<open>approved\<close> and
  \<^verbatim>\<open>skipped\<close>; either way the result has the image URL and the validation's status,
  issues and reasoning.
\<close>

theorem runGeneration_stage:
  assumes "call_randomUUID env s = (Inr ident, s1)"
    and "call_buildPrompt env loc md lp mo emphasis s1 = (Inr (positive, negative), s2)"
    and "call_fileToBase64 env file s2 = (Inr base64, s3)"
    and "primary env base64 positive negative ratio s3 = (Inr (url0, usedEngine), s4)"
    and "fallback env url0 positive negative ratio s4 = (Inr url, s5)"
    and "call_validateMarineScene env url loc (expectations md lp mo usedEngine) s5 = (Inr v, s6)"
  shows "\<exists>r. runGeneration env file loc md lp mo emphasis ratio s = (Inr r, s6) \<and>
     (stage r = Failed \<longleftrightarrow> status v = js ''flagged'') \<and>
     (stage r = Completed \<longleftrightarrow> status v \<noteq> js ''flagged'') \<and>
     (status v = js ''approved'' \<or> status v = js ''skipped'' \<longrightarrow> stage r = Completed) \<and>
     imageUrl r = Some url \<and>
     validation r = Some \<lparr>status = status v, issues = issues v, reasoning = reasoning v\<rparr>"
  by (simp add: runGeneration_unfold [OF assms(1)] generation_returns [OF assms(2-6)])

theorem runGeneration_stage_witness:
  "\<exists>r. runGeneration demo_flagged boat (js ''Miami'') (js ''running'') (js ''wide'')
          (js ''sunrise'') [] (js ''3:2'') (0, []) =
        (Inr r,
         (5, [Call_randomUUID,
              Call_buildPrompt (js ''Miami'') (js ''running'') (js ''wide'') (js ''sunrise'') [],
              Call_fileToBase64 boat,
              Call_generateWithPollinations (js ''boat at Miami'') (js ''trailer'') (js ''3:2''),
              Call_validateMarineScene (js ''https://pollinations/3:2'') (js ''Miami'')
                (expectations (js ''running'') (js ''wide'') (js ''sunrise'')
                   (js ''pollinations''))])) \<and>
      stage r = Failed \<and>
      imageUrl r = Some (js ''https://pollinations/3:2'') \<and>
      validation r =
        Some \<lparr>status = js ''flagged'', issues = [js ''trailer visible''],
              reasoning = js ''not on water''\<rparr>"
proof -
  let ?bp = "Call_buildPrompt (js ''Miami'') (js ''running'') (js ''wide'') (js ''sunrise'') []"
  let ?pol = "Call_generateWithPollinations (js ''boat at Miami'') (js ''trailer'') (js ''3:2'')"
  let ?ex = "expectations (js ''running'') (js ''wide'') (js ''sunrise'') (js ''pollinations'')"
  have u: "call_randomUUID demo_flagged (0, []) =
      (Inr (js ''uuid-0''), (1, [Call_randomUUID]))"
    by (simp add: demo_flagged_def stub_simps run_simps js_def)
  have b: "call_buildPrompt demo_flagged (js ''Miami'') (js ''running'') (js ''wide'')
        (js ''sunrise'') [] (1, [Call_randomUUID]) =
      (Inr (js ''boat at Miami'', js ''trailer''), (2, [Call_randomUUID, ?bp]))"
    by (simp add: demo_flagged_def stub_simps run_simps js_def)
  have f: "call_fileToBase64 demo_flagged boat (2, [Call_randomUUID, ?bp]) =
      (Inr (js ''QUJD''), (3, [Call_randomUUID, ?bp, Call_fileToBase64 boat]))"
    by (simp add: demo_flagged_def stub_simps run_simps)
  have g: "primary demo_flagged (js ''QUJD'') (js ''boat at Miami'') (js ''trailer'') (js ''3:2'')
        (3, [Call_randomUUID, ?bp, Call_fileToBase64 boat]) =
      (Inr (None, js ''pollinations''), (3, [Call_randomUUID, ?bp, Call_fileToBase64 boat]))"
    by (simp add: demo_flagged_def stub_simps run_simps)
  have p: "fallback demo_flagged None (js ''boat at Miami'') (js ''trailer'')
        (js ''3:2'') (3, [Call_randomUUID, ?bp, Call_fileToBase64 boat]) =
      (Inr (js ''https://pollinations/3:2''),
       (4, [Call_randomUUID, ?bp, Call_fileToBase64 boat, ?pol]))"
    by (simp add: demo_flagged_def stub_simps run_simps js_def)
  have v: "call_validateMarineScene demo_flagged (js ''https://pollinations/3:2'')
        (js ''Miami'') ?ex (4, [Call_randomUUID, ?bp, Call_fileToBase64 boat, ?pol]) =
      (Inr \<lparr>status = js ''flagged'', issues = [js ''trailer visible''],
            reasoning = js ''not on water''\<rparr>,
       (5, [Call_randomUUID, ?bp, Call_fileToBase64 boat, ?pol,
            Call_validateMarineScene (js ''https://pollinations/3:2'') (js ''Miami'') ?ex]))"
    by (simp add: demo_flagged_def stub_simps run_simps)
  show ?thesis
    using runGeneration_stage [OF u b f g p v] by auto
qed

section \<open>The aspect ratio\<close>

text \<open>
  C7. The aspect ratio of a request is one of \<^verbatim>\<open>1:1\<close>, \<^verbatim>\<open>4:3\<close>, \<^verbatim>\<open>3:2\<close> and
  \<^verbatim>\<open>16:9\<close>: a form field \<^verbatim>\<open>aspectRatio\<close> that reads \<^verbatim>\<open>1:1\<close>, \<^verbatim>\<open>4:3\<close> or
  \<^verbatim>\<open>16:9\<close> is used as given, and any other value, or no field, gives \<^verbatim>\<open>3:2\<close>. That
  value is the aspect ratio of every call of a generator the request makes.
\<close>

theorem POST_aspectRatio_enumeration:
  "POST_aspectRatio fd \<in> {js ''1:1'', js ''4:3'', js ''3:2'', js ''16:9''} \<and>
   (\<forall>raw. field_text fd (js ''aspectRatio'') = Some raw \<and>
          raw \<in> {js ''1:1'', js ''4:3'', js ''16:9''} \<longrightarrow> POST_aspectRatio fd = raw) \<and>
   (\<forall>raw. field_text fd (js ''aspectRatio'') = Some raw \<and>
          raw \<notin> {js ''1:1'', js ''4:3'', js ''16:9''} \<longrightarrow> POST_aspectRatio fd = js ''3:2'') \<and>
   (field_text fd (js ''aspectRatio'') = None \<longrightarrow> POST_aspectRatio fd = js ''3:2'') \<and>
   (\<forall>s r s'. POST env (Inr fd) s = (r, s') \<longrightarrow>
      (\<exists>new. snd s' = snd s @ new \<and>
         (\<forall>b p n a st. Call_generateWithFal b p n a st \<in> set new \<longrightarrow> a = POST_aspectRatio fd) \<and>
         (\<forall>p n a. Call_generateWithPollinations p n a \<in> set new \<longrightarrow> a = POST_aspectRatio fd)))"
proof -
  have enum: "POST_aspectRatio fd \<in> {js ''1:1'', js ''4:3'', js ''3:2'', js ''16:9''}"
    by (simp add: POST_aspectRatio_def Let_def)
  have given: "POST_aspectRatio fd = raw"
    if "field_text fd (js ''aspectRatio'') = Some raw" "raw \<in> {js ''1:1'', js ''4:3'', js ''16:9''}" for raw
    using that by (auto simp: POST_aspectRatio_def Let_def)
  have other: "POST_aspectRatio fd = js ''3:2''"
    if "field_text fd (js ''aspectRatio'') = Some raw" "raw \<notin> {js ''1:1'', js ''4:3'', js ''16:9''}" for raw
    using that by (auto simp: POST_aspectRatio_def Let_def)
  have absent: "POST_aspectRatio fd = js ''3:2''" if "field_text fd (js ''aspectRatio'') = None"
    using that by (simp add: POST_aspectRatio_def Let_def)
  have used: "\<exists>new. snd s' = snd s @ new \<and>
         (\<forall>b p n a st. Call_generateWithFal b p n a st \<in> set new \<longrightarrow> a = POST_aspectRatio fd) \<and>
         (\<forall>p n a. Call_generateWithPollinations p n a \<in> set new \<longrightarrow> a = POST_aspectRatio fd)"
    if run: "POST env (Inr fd) s = (r, s')" for s r s'
  proof -
    obtain new where new: "snd s' = snd s @ new"
      "list_all (call_agrees (POST_location fd) (POST_mode fd) (POST_lens fd) (POST_mood fd)
         (POST_emphasis env fd) (POST_aspectRatio fd)) new"
      using POST_keeps_to [of fd env] run unfolding keeps_to_def by blast
    have "a = POST_aspectRatio fd" if "Call_generateWithFal b p n a st \<in> set new" for b p n a st
      using new(2) that by (auto simp: list_all_iff)
    moreover have "a = POST_aspectRatio fd" if "Call_generateWithPollinations p n a \<in> set new" for p n a
      using new(2) that by (auto simp: list_all_iff)
    ultimately show ?thesis
      using new(1) by blast
  qed
  show ?thesis
    using enum given other absent used by blast
qed

text \<open>On the stub: a listed value, an unlisted value, and no field.\<close>

theorem POST_aspectRatio_enumeration_witness:
  "POST_aspectRatio [(js ''images'', FileEntry boat), (js ''aspectRatio'', StringEntry (js ''16:9''))] = js ''16:9'' \<and>
   POST_aspectRatio [(js ''aspectRatio'', StringEntry (js ''2:1''))] = js ''3:2'' \<and>
   POST_aspectRatio [] = js ''3:2'' \<and>
   Call_generateWithFal (js ''QUJD'') (js ''boat at local waterways'') (js ''trailer'') (js ''16:9'') strength
     \<in> set (snd (snd (POST demo_fal (Inr [(js ''images'', FileEntry boat), (js ''aspectRatio'', StringEntry (js ''16:9''))]) (0, []))))"
proof -
  let ?fd = "[(js ''images'', FileEntry boat), (js ''aspectRatio'', StringEntry (js ''16:9''))]"
  have a: "field_text ?fd (js ''aspectRatio'') = Some (js ''16:9'')"
    by (simp add: field_text_def formData_get_def)
  have b: "field_text [(js ''aspectRatio'', StringEntry (js ''2:1''))] (js ''aspectRatio'') = Some (js ''2:1'')"
    by (simp add: field_text_def formData_get_def)
  have c: "field_text [] (js ''aspectRatio'') = None"
    by (simp add: field_text_def formData_get_def)
  have r: "POST_aspectRatio ?fd = js ''16:9''"
    using POST_aspectRatio_enumeration [of ?fd demo_fal] a by simp
  have d: "Call_generateWithFal (js ''QUJD'') (js ''boat at local waterways'') (js ''trailer'') (js ''16:9'') strength
     \<in> set (snd (snd (POST demo_fal (Inr ?fd) (0, []))))"
    by (simp add: r post_simps stub_simps run_simps Let_def trim_def isWhiteSpace_def js_def)
  show ?thesis
    using POST_aspectRatio_enumeration [of ?fd demo_fal] a
      POST_aspectRatio_enumeration [of "[(js ''aspectRatio'', StringEntry (js ''2:1''))]" demo_fal] b
      POST_aspectRatio_enumeration [of "[]" demo_fal] c d
    by simp
qed

section \<open>One result per file\<close>

lemma generation_names:
  "generation env file loc md lp mo emphasis ratio ident oname s = (Inr r, s') \<Longrightarrow>
     id' r = ident \<and> originalName r = oname"
  unfolding generation_def io_bind_def io_return_def
  by (auto split: prod.splits sum.splits)

lemma runGeneration_names:
  assumes "runGeneration env file loc md lp mo emphasis ratio s = (Inr r, s')"
  shows "originalName r = originalName_of file (id' r)"
  using assms
  by (auto simp: runGeneration_unfold [OF call_randomUUID_returns] failure_def
      split: prod.splits sum.splits dest: generation_names)

lemma run_files_Cons:
  assumes "runGeneration env file loc md lp mo emphasis ratio s = (Inr r, s1)"
  shows "run_files env loc md lp mo emphasis ratio (file # files) acc s =
     run_files env loc md lp mo emphasis ratio files (acc @ [r]) s1"
  using assms by (simp add: io_bind_def)

lemma run_files_results:
  "\<exists>rs s'. run_files env loc md lp mo emphasis ratio files acc s = (Inr (acc @ rs), s') \<and>
     length rs = length files \<and>
     (\<forall>i < length files.
        runGeneration env (files ! i) loc md lp mo emphasis ratio
          (snd (run_files env loc md lp mo emphasis ratio (take i files) acc s)) =
        (Inr (rs ! i),
         snd (run_files env loc md lp mo emphasis ratio (take (Suc i) files) acc s)))"
proof (induction files arbitrary: acc s)
  case Nil
  show ?case
    by (simp add: io_return_def)
next
  case (Cons f fs)
  obtain r s1 where r: "runGeneration env f loc md lp mo emphasis ratio s = (Inr r, s1)"
    using runGeneration_returns by blast
  obtain rs s' where rs:
    "run_files env loc md lp mo emphasis ratio fs (acc @ [r]) s1 = (Inr ((acc @ [r]) @ rs), s')"
    "length rs = length fs"
    "\<forall>i < length fs.
        runGeneration env (fs ! i) loc md lp mo emphasis ratio
          (snd (run_files env loc md lp mo emphasis ratio (take i fs) (acc @ [r]) s1)) =
        (Inr (rs ! i),
         snd (run_files env loc md lp mo emphasis ratio (take (Suc i) fs) (acc @ [r]) s1))"
    using Cons.IH [of "acc @ [r]" s1] by blast
  have whole: "run_files env loc md lp mo emphasis ratio (f # fs) acc s = (Inr (acc @ r # rs), s')"
    using rs(1) r by (simp add: io_bind_def)
  have each: "runGeneration env ((f # fs) ! i) loc md lp mo emphasis ratio
          (snd (run_files env loc md lp mo emphasis ratio (take i (f # fs)) acc s)) =
        (Inr ((r # rs) ! i),
         snd (run_files env loc md lp mo emphasis ratio (take (Suc i) (f # fs)) acc s))"
    if "i < length (f # fs)" for i
  proof (cases i)
    case 0
    then show ?thesis
      using r by (simp add: io_bind_def io_return_def)
  next
    case (Suc j)
    then have "j < length fs"
      using that by simp
    then show ?thesis
      using rs(3) Suc r by (simp add: io_bind_def)
  qed
  show ?case
    using whole rs(2) each by (intro exI [of _ "r # rs"] exI [of _ s']) simp
qed

text \<open>
  C3. For a non-empty list of uploaded files, \<^verbatim>\<open>POST\<close> answers with exactly one
  result per file, in the order of the files in the form data: the result at index
  \<open>i\<close> is what \<^verbatim>\<open>runGeneration\<close> returns for the file at index \<open>i\<close>, run in the
  state the files before it left behind. This holds for all services, so whether or not
  the generation of an earlier item failed, every later file is processed and has its
  result in the response.
\<close>

theorem POST_one_result_per_file:
  assumes "POST_files fd \<noteq> []"
  shows "\<exists>results s'.
     POST env (Inr fd) s =
       (Inr \<lparr>httpStatus = 200,
             json = BatchBody (POST_location fd) (POST_mode fd) (POST_lens fd) (POST_mood fd)
                      results\<rparr>, s') \<and>
     length results = length (POST_files fd) \<and>
     (\<forall>i < length (POST_files fd).
        runGeneration env (POST_files fd ! i) (POST_location fd) (POST_mode fd) (POST_lens fd)
          (POST_mood fd) (POST_emphasis env fd) (POST_aspectRatio fd)
          (snd (run_files env (POST_location fd) (POST_mode fd) (POST_lens fd) (POST_mood fd)
                  (POST_emphasis env fd) (POST_aspectRatio fd) (take i (POST_files fd)) [] s)) =
        (Inr (results ! i),
         snd (run_files env (POST_location fd) (POST_mode fd) (POST_lens fd) (POST_mood fd)
                (POST_emphasis env fd) (POST_aspectRatio fd) (take (Suc i) (POST_files fd)) [] s)) \<and>
        originalName (results ! i) = originalName_of (POST_files fd ! i) (id' (results ! i)))"
proof -
  obtain rs s' where rs:
    "run_files env (POST_location fd) (POST_mode fd) (POST_lens fd) (POST_mood fd)
       (POST_emphasis env fd) (POST_aspectRatio fd) (POST_files fd) [] s = (Inr ([] @ rs), s')"
    "length rs = length (POST_files fd)"
    "\<forall>i < length (POST_files fd).
        runGeneration env (POST_files fd ! i) (POST_location fd) (POST_mode fd) (POST_lens fd)
          (POST_mood fd) (POST_emphasis env fd) (POST_aspectRatio fd)
          (snd (run_files env (POST_location fd) (POST_mode fd) (POST_lens fd) (POST_mood fd)
                  (POST_emphasis env fd) (POST_aspectRatio fd) (take i (POST_files fd)) [] s)) =
        (Inr (rs ! i),
         snd (run_files env (POST_location fd) (POST_mode fd) (POST_lens fd) (POST_mood fd)
                (POST_emphasis env fd) (POST_aspectRatio fd) (take (Suc i) (POST_files fd)) [] s))"
    using run_files_results [of env "POST_location fd" "POST_mode fd" "POST_lens fd" "POST_mood fd"
        "POST_emphasis env fd" "POST_aspectRatio fd" "POST_files fd" "[]" s]
    by blast
  have post: "POST env (Inr fd) s =
       (Inr \<lparr>httpStatus = 200,
             json = BatchBody (POST_location fd) (POST_mode fd) (POST_lens fd) (POST_mood fd) rs\<rparr>,
        s')"
    using assms rs(1) by (simp add: POST_def io_bind_def io_return_def)
  have names: "originalName (rs ! i) = originalName_of (POST_files fd ! i) (id' (rs ! i))"
    if "i < length (POST_files fd)" for i
    using rs(3) that runGeneration_names by blast
  show ?thesis
    using post rs(2,3) names by (intro exI [of _ rs] exI [of _ s']) simp
qed

text \<open>
  On the stub, the batch of three files has three results in the order of the files;
  the second fails and the third is still generated.
\<close>

theorem POST_one_result_per_file_witness:
  "POST_files batch = [boat, broken, unnamed] \<and>
   (\<exists>results s'.
      POST demo (Inr batch) (0, []) =
        (Inr \<lparr>httpStatus = 200,
              json = BatchBody (js ''local waterways'') (js ''anchored'') (js ''wide'')
                       (js ''sunrise'') results\<rparr>, s') \<and>
      length results = 3 \<and>
      map originalName results = [js ''boat.png'', js ''broken.png'', js ''upload-uuid-8.png''] \<and>
      map stage results = [Completed, Failed, Completed] \<and>
      map error results = [None, Some (js ''unreadable file''), None])"
proof -
  have files: "POST_files batch = [boat, broken, unnamed]"
    by (simp add: batch_def POST_files_def formData_getAll_def)
  then have nonempty: "POST_files batch \<noteq> []"
    by simp
  have run: "POST demo (Inr batch) (0, []) =
    (Inr \<lparr>httpStatus = 200,
          json = BatchBody (js ''local waterways'') (js ''anchored'') (js ''wide'') (js ''sunrise'')
            [\<lparr>id' = js ''uuid-0'', originalName = js ''boat.png'', stage = Completed,
              imageUrl = Some (js ''https://pollinations/3:2''),
              validation = Some \<lparr>status = js ''approved'', issues = [], reasoning = js ''on water''\<rparr>,
              metadata = Some \<lparr>mode = js ''anchored'', lens = js ''wide'', mood = js ''sunrise'',
                   engine = js ''pollinations'', location = js ''local waterways'',
                   aspectRatio = js ''3:2''\<rparr>,
              error = None\<rparr>,
             \<lparr>id' = js ''uuid-5'', originalName = js ''broken.png'', stage = Failed,
              imageUrl = None, validation = None, metadata = None,
              error = Some (js ''unreadable file'')\<rparr>,
             \<lparr>id' = js ''uuid-8'', originalName = js ''upload-uuid-8.png'', stage = Completed,
              imageUrl = Some (js ''https://pollinations/3:2''),
              validation = Some \<lparr>status = js ''approved'', issues = [], reasoning = js ''on water''\<rparr>,
              metadata = Some \<lparr>mode = js ''anchored'', lens = js ''wide'', mood = js ''sunrise'',
                   engine = js ''pollinations'', location = js ''local waterways'',
                   aspectRatio = js ''3:2''\<rparr>,
              error = None\<rparr>]\<rparr>,
     (13, [Call_randomUUID,
           Call_buildPrompt (js ''local waterways'') (js ''anchored'') (js ''wide'') (js ''sunrise'') [],
           Call_fileToBase64 boat,
           Call_generateWithPollinations (js ''boat at local waterways'') (js ''trailer'') (js ''3:2''),
           Call_validateMarineScene (js ''https://pollinations/3:2'') (js ''local waterways'')
             (expectations (js ''anchored'') (js ''wide'') (js ''sunrise'') (js ''pollinations'')),
           Call_randomUUID,
           Call_buildPrompt (js ''local waterways'') (js ''anchored'') (js ''wide'') (js ''sunrise'') [],
           Call_fileToBase64 broken,
           Call_randomUUID,
           Call_buildPrompt (js ''local waterways'') (js ''anchored'') (js ''wide'') (js ''sunrise'') [],
           Call_fileToBase64 unnamed,
           Call_generateWithPollinations (js ''boat at local waterways'') (js ''trailer'') (js ''3:2''),
           Call_validateMarineScene (js ''https://pollinations/3:2'') (js ''local waterways'')
             (expectations (js ''anchored'') (js ''wide'') (js ''sunrise'') (js ''pollinations''))]))"
    by (simp add: batch_def post_simps stub_simps run_simps Let_def js_def)
  obtain results s' where r:
    "POST demo (Inr batch) (0, []) =
       (Inr \<lparr>httpStatus = 200,
             json = BatchBody (POST_location batch) (POST_mode batch) (POST_lens batch)
                      (POST_mood batch) results\<rparr>, s')"
    "length results = length (POST_files batch)"
    using POST_one_result_per_file [OF nonempty, of demo "(0, [])"] by blast
  have params: "POST_location batch = js ''local waterways''" "POST_mode batch = js ''anchored''"
    "POST_lens batch = js ''wide''" "POST_mood batch = js ''sunrise''"
    by (simp_all add: batch_def post_simps trim_def)
  have "results =
        [\<lparr>id' = js ''uuid-0'', originalName = js ''boat.png'', stage = Completed,
          imageUrl = Some (js ''https://pollinations/3:2''),
          validation = Some \<lparr>status = js ''approved'', issues = [], reasoning = js ''on water''\<rparr>,
          metadata = Some \<lparr>mode = js ''anchored'', lens = js ''wide'', mood = js ''sunrise'',
               engine = js ''pollinations'', location = js ''local waterways'',
               aspectRatio = js ''3:2''\<rparr>,
          error = None\<rparr>,
         \<lparr>id' = js ''uuid-5'', originalName = js ''broken.png'', stage = Failed,
          imageUrl = None, validation = None, metadata = None,
          error = Some (js ''unreadable file'')\<rparr>,
         \<lparr>id' = js ''uuid-8'', originalName = js ''upload-uuid-8.png'', stage = Completed,
          imageUrl = Some (js ''https://pollinations/3:2''),
          validation = Some \<lparr>status = js ''approved'', issues = [], reasoning = js ''on water''\<rparr>,
          metadata = Some \<lparr>mode = js ''anchored'', lens = js ''wide'', mood = js ''sunrise'',
               engine = js ''pollinations'', location = js ''local waterways'',
               aspectRatio = js ''3:2''\<rparr>,
          error = None\<rparr>]"
    using r(1) run by (simp add: params)
  then have "map originalName results = [js ''boat.png'', js ''broken.png'', js ''upload-uuid-8.png'']"
    "map stage results = [Completed, Failed, Completed]"
    "map error results = [None, Some (js ''unreadable file''), None]"
    by simp_all
  then show ?thesis
    using files r params by simp
qed

section \<open>Defaults of the form fields\<close>

text \<open>
  C10. An absent form field gets its default: location \<^verbatim>\<open>local waterways\<close>, mode
  \<^verbatim>\<open>running\<close>, lens \<^verbatim>\<open>wide\<close>, mood \<^verbatim>\<open>sunrise\<close>, aspect ratio \<^verbatim>\<open>3:2\<close>. A
  location of white space only also gets the default. A mode, lens or mood given as a
  string is passed through unchanged, the empty string included: only a null field
  triggers those defaults.
\<close>

theorem POST_defaults:
  "(formData_get fd (js ''location'') = None \<longrightarrow> POST_location fd = js ''local waterways'') \<and>
   (formData_get fd (js ''mode'') = None \<longrightarrow> POST_mode fd = js ''running'') \<and>
   (formData_get fd (js ''lens'') = None \<longrightarrow> POST_lens fd = js ''wide'') \<and>
   (formData_get fd (js ''mood'') = None \<longrightarrow> POST_mood fd = js ''sunrise'') \<and>
   (formData_get fd (js ''aspectRatio'') = None \<longrightarrow> POST_aspectRatio fd = js ''3:2'') \<and>
   (\<forall>t. formData_get fd (js ''location'') = Some (StringEntry t) \<and> list_all isWhiteSpace t
        \<longrightarrow> POST_location fd = js ''local waterways'') \<and>
   (\<forall>t. formData_get fd (js ''mode'') = Some (StringEntry t) \<longrightarrow> POST_mode fd = t) \<and>
   (\<forall>t. formData_get fd (js ''lens'') = Some (StringEntry t) \<longrightarrow> POST_lens fd = t) \<and>
   (\<forall>t. formData_get fd (js ''mood'') = Some (StringEntry t) \<longrightarrow> POST_mood fd = t) \<and>
   (formData_get fd (js ''mode'') = Some (StringEntry []) \<longrightarrow> POST_mode fd = []) \<and>
   (formData_get fd (js ''lens'') = Some (StringEntry []) \<longrightarrow> POST_lens fd = []) \<and>
   (formData_get fd (js ''mood'') = Some (StringEntry []) \<longrightarrow> POST_mood fd = [])"
  by (simp add: POST_location_def POST_mode_def POST_lens_def POST_mood_def POST_aspectRatio_def
      field_text_def trim_whitespace)

text \<open>On a form with a blank location, an empty mode and nothing else.\<close>

theorem POST_defaults_witness:
  "POST_location [(js ''location'', StringEntry [0x0020, 0x0009, 0x00A0]), (js ''mode'', StringEntry [])] =
     js ''local waterways'' \<and>
   POST_mode [(js ''location'', StringEntry [0x0020, 0x0009, 0x00A0]), (js ''mode'', StringEntry [])] = [] \<and>
   POST_lens [(js ''location'', StringEntry [0x0020, 0x0009, 0x00A0]), (js ''mode'', StringEntry [])] = js ''wide'' \<and>
   POST_mood [(js ''location'', StringEntry [0x0020, 0x0009, 0x00A0]), (js ''mode'', StringEntry [])] = js ''sunrise'' \<and>
   POST_aspectRatio [(js ''location'', StringEntry [0x0020, 0x0009, 0x00A0]), (js ''mode'', StringEntry [])] = js ''3:2'' \<and>
   POST_location [] = js ''local waterways'' \<and>
   POST_mode [] = js ''running''"
proof -
  let ?fd = "[(js ''location'', StringEntry [0x0020, 0x0009, 0x00A0]), (js ''mode'', StringEntry [])]"
  have l: "formData_get ?fd (js ''location'') = Some (StringEntry [0x0020, 0x0009, 0x00A0])"
    "list_all isWhiteSpace [0x0020, 0x0009, 0x00A0]"
    by (simp_all add: formData_get_def isWhiteSpace_def)
  have m: "formData_get ?fd (js ''mode'') = Some (StringEntry [])"
    by (simp add: formData_get_def)
  have a: "formData_get ?fd (js ''lens'') = None" "formData_get ?fd (js ''mood'') = None"
    "formData_get ?fd (js ''aspectRatio'') = None"
    by (simp_all add: formData_get_def)
  have e: "formData_get [] (js ''location'') = None" "formData_get [] (js ''mode'') = None"
    by (simp_all add: formData_get_def)
  show ?thesis
    using POST_defaults [of ?fd] POST_defaults [of "[]"] l m a e by simp
qed

section \<open>The emphasis list\<close>

lemma map_String_trim_Inr:
  "map (ToString num) parsed = map Inr strs \<Longrightarrow> map_String_trim num parsed = Inr (map trim strs)"
  by (induction parsed arbitrary: strs) auto

lemma map_String_trim_Inl:
  "ToString num x = Inl e \<Longrightarrow> x \<in> set parsed \<Longrightarrow> \<exists>e'. map_String_trim num parsed = Inl e'"
  by (induction parsed) (auto split: sum.splits)

text \<open>
  C8, as amended. When the \<^verbatim>\<open>emphasis\<close> form field is a non-empty string that
  \<^verbatim>\<open>JSON.parse\<close> reads as an array, and \<^verbatim>\<open>String(entry)\<close> converts each entry of
  the array (the strings \<open>strs\<close>), the emphasis list is those strings trimmed, without
  the ones that trim to the empty string, in order. When the conversion of an entry
  throws, the \<^verbatim>\<open>catch\<close> block gives the raw text split at its commas instead. When the
  field is absent or is a file, the list is empty. The list is the emphasis argument of
  every call of \<^verbatim>\<open>buildPrompt\<close> the request makes.
\<close>

theorem POST_emphasis_of_array:
  "(\<forall>raw parsed strs.
      formData_get fd (js ''emphasis'') = Some (StringEntry raw) \<and> raw \<noteq> [] \<and>
      JSON_parse env raw = Inr (JArr parsed) \<and>
      map (ToString (Number_toString env)) parsed = map Inr strs
      \<longrightarrow> POST_emphasis env fd = filter (\<lambda>entry. entry \<noteq> []) (map trim strs)) \<and>
   (\<forall>raw parsed.
      formData_get fd (js ''emphasis'') = Some (StringEntry raw) \<and> raw \<noteq> [] \<and>
      JSON_parse env raw = Inr (JArr parsed) \<and>
      (\<exists>x \<in> set parsed. \<exists>e. ToString (Number_toString env) x = Inl e)
      \<longrightarrow> POST_emphasis env fd = split_trim raw) \<and>
   (formData_get fd (js ''emphasis'') = None \<longrightarrow> POST_emphasis env fd = []) \<and>
   (\<forall>f. formData_get fd (js ''emphasis'') = Some (FileEntry f) \<longrightarrow> POST_emphasis env fd = []) \<and>
   (\<forall>s r s'. POST env (Inr fd) s = (r, s') \<longrightarrow>
      (\<exists>new. snd s' = snd s @ new \<and>
         (\<forall>l m p c e. Call_buildPrompt l m p c e \<in> set new \<longrightarrow> e = POST_emphasis env fd)))"
proof -
  have array: "POST_emphasis env fd = filter (\<lambda>entry. entry \<noteq> []) (map trim strs)"
    if "formData_get fd (js ''emphasis'') = Some (StringEntry raw)" "raw \<noteq> []"
      "JSON_parse env raw = Inr (JArr parsed)"
      "map (ToString (Number_toString env)) parsed = map Inr strs" for raw parsed strs
    using that by (simp add: POST_emphasis_def parseJsonArray_def map_String_trim_Inr)
  have thrown: "POST_emphasis env fd = split_trim raw"
    if h: "formData_get fd (js ''emphasis'') = Some (StringEntry raw)" "raw \<noteq> []"
      "JSON_parse env raw = Inr (JArr parsed)"
      "\<exists>x \<in> set parsed. \<exists>e. ToString (Number_toString env) x = Inl e" for raw parsed
  proof -
    obtain e' where "map_String_trim (Number_toString env) parsed = Inl e'"
      using h(4) map_String_trim_Inl by blast
    then show ?thesis
      using h(1-3) by (simp add: POST_emphasis_def parseJsonArray_def)
  qed
  have absent: "POST_emphasis env fd = []" if "formData_get fd (js ''emphasis'') = None"
    using that by (simp add: POST_emphasis_def parseJsonArray_def)
  have not_string: "POST_emphasis env fd = []" if "formData_get fd (js ''emphasis'') = Some (FileEntry f)" for f
    using that by (simp add: POST_emphasis_def parseJsonArray_def)
  have used: "\<exists>new. snd s' = snd s @ new \<and>
         (\<forall>l m p c e. Call_buildPrompt l m p c e \<in> set new \<longrightarrow> e = POST_emphasis env fd)"
    if run: "POST env (Inr fd) s = (r, s')" for s r s'
  proof -
    obtain new where new: "snd s' = snd s @ new"
      "list_all (call_agrees (POST_location fd) (POST_mode fd) (POST_lens fd) (POST_mood fd)
         (POST_emphasis env fd) (POST_aspectRatio fd)) new"
      using POST_keeps_to [of fd env] run unfolding keeps_to_def by blast
    have "e = POST_emphasis env fd" if "Call_buildPrompt l m p c e \<in> set new" for l m p c e
      using new(2) that by (auto simp: list_all_iff)
    then show ?thesis
      using new(1) by blast
  qed
  show ?thesis
    using array thrown absent not_string used by blast
qed

text \<open>
  On the stub: an array of two strings, a boolean and null; an array whose entry
  cannot be converted; no field; a file.
\<close>

theorem POST_emphasis_of_array_witness:
  "POST_emphasis demo [(js ''emphasis'', StringEntry emphasis_plain)] =
     [js ''clean foam'', js ''true'', js ''null''] \<and>
   POST_emphasis demo [(js ''emphasis'', StringEntry emphasis_odd)] = split_trim emphasis_odd \<and>
   POST_emphasis demo [] = [] \<and>
   POST_emphasis demo [(js ''emphasis'', FileEntry boat)] = []"
proof -
  have g: "formData_get [(js ''emphasis'', StringEntry emphasis_plain)] (js ''emphasis'') =
      Some (StringEntry emphasis_plain)"
    by (simp add: formData_get_def)
  have n: "emphasis_plain \<noteq> []"
    by (simp add: emphasis_plain_def)
  have p: "JSON_parse demo emphasis_plain =
      Inr (JArr [JStr (js ''clean foam ''), JStr (js ''  ''), JBool True, JNull])"
    by (simp add: demo_def demo_parse_def)
  have c: "map (ToString (Number_toString demo))
        [JStr (js ''clean foam ''), JStr (js ''  ''), JBool True, JNull] =
      map Inr [js ''clean foam '', js ''  '', js ''true'', js ''null'']"
    by simp
  have t: "filter (\<lambda>entry. entry \<noteq> [])
        (map trim [js ''clean foam '', js ''  '', js ''true'', js ''null'']) =
      [js ''clean foam'', js ''true'', js ''null'']"
    by (simp add: trim_def isWhiteSpace_def js_def)
  have plain: "POST_emphasis demo [(js ''emphasis'', StringEntry emphasis_plain)] =
     [js ''clean foam'', js ''true'', js ''null'']"
    using POST_emphasis_of_array [of "[(js ''emphasis'', StringEntry emphasis_plain)]" demo]
      g n p c t by metis
  have g': "formData_get [(js ''emphasis'', StringEntry emphasis_odd)] (js ''emphasis'') =
      Some (StringEntry emphasis_odd)"
    by (simp add: formData_get_def)
  have n': "emphasis_odd \<noteq> []"
    by (simp add: emphasis_odd_def)
  have p': "JSON_parse demo emphasis_odd = Inr (JArr [JObj [(js ''toString'', JNull)]])"
    by (simp add: demo_def demo_parse_def emphasis_odd_def emphasis_plain_def)
  have c': "\<exists>x \<in> set [JObj [(js ''toString'', JNull)]]. \<exists>e. ToString (Number_toString demo) x = Inl e"
    by simp
  have odd: "POST_emphasis demo [(js ''emphasis'', StringEntry emphasis_odd)] = split_trim emphasis_odd"
    using POST_emphasis_of_array [of "[(js ''emphasis'', StringEntry emphasis_odd)]" demo]
      g' n' p' c' by blast
  have a: "formData_get [] (js ''emphasis'') = None"
    "formData_get [(js ''emphasis'', FileEntry boat)] (js ''emphasis'') = Some (FileEntry boat)"
    by (simp_all add: formData_get_def)
  show ?thesis
    using plain odd a POST_emphasis_of_array [of "[]" demo]
      POST_emphasis_of_array [of "[(js ''emphasis'', FileEntry boat)]" demo]
    by simp
qed

text \<open>
  The claim as first stated, for every JSON-encoded array, fails on the array
  \<^verbatim>\<open>[{"toString":null}]\<close>: its one entry has no conversion to a string, and the
  emphasis list is the raw text itself.
\<close>

theorem emphasis_entry_without_string:
  "formData_get [(js ''emphasis'', StringEntry emphasis_odd)] (js ''emphasis'') =
     Some (StringEntry emphasis_odd) \<and>
   JSON_parse demo emphasis_odd = Inr (JArr [JObj [(js ''toString'', JNull)]]) \<and>
   ToString (Number_toString demo) (JObj [(js ''toString'', JNull)]) =
     Inl (ErrorObj (js ''Cannot convert object to primitive value'')) \<and>
   POST_emphasis demo [(js ''emphasis'', StringEntry emphasis_odd)] = [emphasis_odd] \<and>
   \<not> (\<exists>strs.
        map (ToString (Number_toString demo)) [JObj [(js ''toString'', JNull)]] = map Inr strs \<and>
        POST_emphasis demo [(js ''emphasis'', StringEntry emphasis_odd)] =
          filter (\<lambda>entry. entry \<noteq> []) (map trim strs))"
proof -
  have p: "JSON_parse demo emphasis_odd = Inr (JArr [JObj [(js ''toString'', JNull)]])"
    by (simp add: demo_def demo_parse_def emphasis_odd_def emphasis_plain_def)
  have s: "split_trim emphasis_odd = [emphasis_odd]"
    by (simp add: split_trim_def emphasis_odd_def trim_def isWhiteSpace_def comma_def js_def)
  have e: "POST_emphasis demo [(js ''emphasis'', StringEntry emphasis_odd)] = [emphasis_odd]"
    using p s by (simp add: POST_emphasis_def parseJsonArray_def formData_get_def emphasis_odd_def)
  have no: "\<not> (\<exists>strs.
        map (ToString (Number_toString demo)) [JObj [(js ''toString'', JNull)]] = map Inr strs \<and>
        POST_emphasis demo [(js ''emphasis'', StringEntry emphasis_odd)] =
          filter (\<lambda>entry. entry \<noteq> []) (map trim strs))"
    by (auto simp: Cons_eq_map_conv)
  show ?thesis
    using p e no by (simp add: formData_get_def)
qed

section \<open>The engine named in the metadata\<close>

text \<open>
  The metadata of a generated item repeats the request parameters
  (\<open>generation_returns\<close>). Its engine names the generator that produced the URL as
  long as the primary generator does not resolve to the empty string: then either the
  primary generator returned the URL and the engine is \<^verbatim>\<open>fal-ai/flux-pro\<close>, or the
  fallback did and the engine is \<^verbatim>\<open>pollinations\<close>.
\<close>

lemma engine_names_producer:
  assumes "primary env base64 positive negative ratio s3 = (Inr (url0, usedEngine), s4)"
    and "fallback env url0 positive negative ratio s4 = (Inr url, s5)"
    and "url0 \<noteq> Some []"
  shows "(usedEngine = js ''fal-ai/flux-pro'' \<and> url0 = Some url \<and> s5 = s4 \<and>
          call_generateWithFal env base64 positive negative ratio strength s3 = (Inr url, s4)) \<or>
         (usedEngine = js ''pollinations'' \<and> url0 = None \<and>
          call_generateWithPollinations env positive negative ratio s4 = (Inr url, s5))"
  using assms
  by (auto simp: primary_def fallback_def truthy_def io_catch_def io_bind_def io_return_def
      split: if_splits prod.splits sum.splits option.splits)

text \<open>
  C5. The engine field names the generator that produced the returned image URL. The
  handler misses this when the primary generator resolves to the empty string: line 78
  has already set the engine to \<^verbatim>\<open>fal-ai/flux-pro\<close> when line 84 finds no URL and
  takes the one of the fallback generator. On the stub whose primary generator
  resolves to the empty string, the URL is the fallback's and the engine field reads
  \<^verbatim>\<open>fal-ai/flux-pro\<close>.
\<close>

theorem engine_after_empty_primary_url:
  "runGeneration demo_fal_empty boat (js ''Miami'') (js ''running'') (js ''wide'')
     (js ''sunrise'') [] (js ''3:2'') (0, []) =
     (Inr \<lparr>id' = js ''uuid-0'', originalName = js ''boat.png'', stage = Completed,
           imageUrl = Some (js ''https://pollinations/3:2''),
           validation =
             Some \<lparr>status = js ''approved'', issues = [], reasoning = js ''on water''\<rparr>,
           metadata =
             Some \<lparr>mode = js ''running'', lens = js ''wide'', mood = js ''sunrise'',
                   engine = js ''fal-ai/flux-pro'', location = js ''Miami'',
                   aspectRatio = js ''3:2''\<rparr>,
           error = None\<rparr>,
      (6, [Call_randomUUID,
           Call_buildPrompt (js ''Miami'') (js ''running'') (js ''wide'') (js ''sunrise'') [],
           Call_fileToBase64 boat,
           Call_generateWithFal (js ''QUJD'') (js ''boat at Miami'') (js ''trailer'')
             (js ''3:2'') strength,
           Call_generateWithPollinations (js ''boat at Miami'') (js ''trailer'') (js ''3:2''),
           Call_validateMarineScene (js ''https://pollinations/3:2'') (js ''Miami'')
             (expectations (js ''running'') (js ''wide'') (js ''sunrise'')
                (js ''fal-ai/flux-pro''))])) \<and>
   generateWithFal demo_fal_empty (js ''QUJD'') (js ''boat at Miami'') (js ''trailer'')
     (js ''3:2'') strength 3 = (Inr [], 4) \<and>
   generateWithPollinations demo_fal_empty (js ''boat at Miami'') (js ''trailer'') (js ''3:2'') 4 =
     (Inr (js ''https://pollinations/3:2''), 5)"
  by (simp add: demo_fal_empty_def post_simps stub_simps run_simps js_def)

section \<open>Mode, lens and mood\<close>

text \<open>
  C6. Mode, mood and lens are to be members of their enumerations whatever the client
  sends. Lines 144 to 146 only cast the form fields to the types, where lines 149 to
  154 check the aspect ratio against its enumeration. On the stub, a request with mode
  \<^verbatim>\<open>flying\<close>, lens \<^verbatim>\<open>fisheye\<close> and mood \<^verbatim>\<open>noon\<close> has these values passed to
  \<^verbatim>\<open>buildPrompt\<close> and repeated in the response and in the metadata of the result.
\<close>

theorem unlisted_mode_lens_mood:
  "POST demo (Inr odd_request) (0, []) =
     (Inr \<lparr>httpStatus = 200,
           json = BatchBody (js ''local waterways'') (js ''flying'') (js ''fisheye'') (js ''noon'')
             [\<lparr>id' = js ''uuid-0'', originalName = js ''boat.png'', stage = Completed,
               imageUrl = Some (js ''https://pollinations/3:2''),
               validation =
                 Some \<lparr>status = js ''approved'', issues = [], reasoning = js ''on water''\<rparr>,
               metadata =
                 Some \<lparr>mode = js ''flying'', lens = js ''fisheye'', mood = js ''noon'',
                       engine = js ''pollinations'', location = js ''local waterways'',
                       aspectRatio = js ''3:2''\<rparr>,
               error = None\<rparr>]\<rparr>,
      (5, [Call_randomUUID,
           Call_buildPrompt (js ''local waterways'') (js ''flying'') (js ''fisheye'') (js ''noon'') [],
           Call_fileToBase64 boat,
           Call_generateWithPollinations (js ''boat at local waterways'') (js ''trailer'')
             (js ''3:2''),
           Call_validateMarineScene (js ''https://pollinations/3:2'') (js ''local waterways'')
             (expectations (js ''flying'') (js ''fisheye'') (js ''noon'') (js ''pollinations''))])) \<and>
   js ''flying'' \<notin> set MODES \<and> js ''fisheye'' \<notin> set LENSES \<and> js ''noon'' \<notin> set MOODS"
proof -
  have run: "POST demo (Inr odd_request) (0, []) =
     (Inr \<lparr>httpStatus = 200,
           json = BatchBody (js ''local waterways'') (js ''flying'') (js ''fisheye'') (js ''noon'')
             [\<lparr>id' = js ''uuid-0'', originalName = js ''boat.png'', stage = Completed,
               imageUrl = Some (js ''https://pollinations/3:2''),
               validation =
                 Some \<lparr>status = js ''approved'', issues = [], reasoning = js ''on water''\<rparr>,
               metadata =
                 Some \<lparr>mode = js ''flying'', lens = js ''fisheye'', mood = js ''noon'',
                       engine = js ''pollinations'', location = js ''local waterways'',
                       aspectRatio = js ''3:2''\<rparr>,
               error = None\<rparr>]\<rparr>,
      (5, [Call_randomUUID,
           Call_buildPrompt (js ''local waterways'') (js ''flying'') (js ''fisheye'') (js ''noon'') [],
           Call_fileToBase64 boat,
           Call_generateWithPollinations (js ''boat at local waterways'') (js ''trailer'')
             (js ''3:2''),
           Call_validateMarineScene (js ''https://pollinations/3:2'') (js ''local waterways'')
             (expectations (js ''flying'') (js ''fisheye'') (js ''noon'') (js ''pollinations''))]))"
    by (simp add: odd_request_def post_simps stub_simps run_simps Let_def js_def)
  have out: "js ''flying'' \<notin> set MODES \<and> js ''fisheye'' \<notin> set LENSES \<and> js ''noon'' \<notin> set MOODS"
    by (simp add: MODES_def LENSES_def MOODS_def)
  show ?thesis
    using run out by simp
qed

end
